theory Spec2Isabelle
  imports Complex_Main
begin

section \<open>Numbers of the script\<close>

text \<open>
  The script computes with JavaScript numbers. They are modelled as exact reals together
  with the three special values a computation of the script can produce: the two
  infinities and NaN. Rounding to binary64, overflow and the sign of zero are not
  modelled: a finite result is the exact real.
\<close>

datatype jsnum = Num real | PosInf | NegInf | NaN

fun jneg :: "jsnum \<Rightarrow> jsnum" where
  "jneg (Num a) = Num (- a)"
| "jneg PosInf = NegInf"
| "jneg NegInf = PosInf"
| "jneg NaN = NaN"

fun jadd :: "jsnum \<Rightarrow> jsnum \<Rightarrow> jsnum" where
  "jadd (Num a) (Num b) = Num (a + b)"
| "jadd NaN _ = NaN"
| "jadd _ NaN = NaN"
| "jadd PosInf NegInf = NaN"
| "jadd NegInf PosInf = NaN"
| "jadd PosInf _ = PosInf"
| "jadd _ PosInf = PosInf"
| "jadd NegInf _ = NegInf"
| "jadd _ NegInf = NegInf"

definition jsub :: "jsnum \<Rightarrow> jsnum \<Rightarrow> jsnum" where
  "jsub a b = jadd a (jneg b)"

fun jmul :: "jsnum \<Rightarrow> jsnum \<Rightarrow> jsnum" where
  "jmul (Num a) (Num b) = Num (a * b)"
| "jmul NaN _ = NaN"
| "jmul _ NaN = NaN"
| "jmul (Num a) y = (if a = 0 then NaN else if a < 0 then jneg y else y)"
| "jmul x (Num b) = (if b = 0 then NaN else if b < 0 then jneg x else x)"
| "jmul PosInf y = y"
| "jmul NegInf y = jneg y"

fun jdiv :: "jsnum \<Rightarrow> jsnum \<Rightarrow> jsnum" where
  "jdiv (Num a) (Num b) =
     (if b = 0 then (if a = 0 then NaN else if 0 < a then PosInf else NegInf)
      else Num (a / b))"
| "jdiv NaN _ = NaN"
| "jdiv _ NaN = NaN"
| "jdiv (Num a) _ = Num 0"
| "jdiv x (Num b) = (if b < 0 then jneg x else x)"
| "jdiv _ _ = NaN"

text \<open>The comparison \<open><\<close>: false as soon as one side is NaN.\<close>

fun jless :: "jsnum \<Rightarrow> jsnum \<Rightarrow> bool" where
  "jless (Num a) (Num b) = (a < b)"
| "jless NaN _ = False"
| "jless _ NaN = False"
| "jless PosInf _ = False"
| "jless _ NegInf = False"
| "jless _ _ = True"

fun Math_sqrt :: "jsnum \<Rightarrow> jsnum" where
  "Math_sqrt (Num a) = (if a < 0 then NaN else Num (sqrt a))"
| "Math_sqrt PosInf = PosInf"
| "Math_sqrt NegInf = NaN"
| "Math_sqrt NaN = NaN"

fun Math_min :: "jsnum \<Rightarrow> jsnum \<Rightarrow> jsnum" where
  "Math_min NaN _ = NaN"
| "Math_min _ NaN = NaN"
| "Math_min a b = (if jless b a then b else a)"

primrec Math_pow :: "jsnum \<Rightarrow> nat \<Rightarrow> jsnum" where
  "Math_pow x 0 = Num 1"
| "Math_pow x (Suc n) = jmul x (Math_pow x n)"

text \<open>\<open>Math.round\<close> rounds to the nearest integer, a half towards plus infinity.\<close>

fun Math_round :: "jsnum \<Rightarrow> jsnum" where
  "Math_round (Num a) = Num (of_int \<lfloor>a + 1 / 2\<rfloor>)"
| "Math_round x = x"

definition Math_PI :: jsnum where
  "Math_PI = Num pi"

section \<open>Numbers as text\<close>

definition digit_char :: "nat \<Rightarrow> char" where
  "digit_char d = ''0123456789'' ! d"

definition is_digit :: "char \<Rightarrow> bool" where
  "is_digit c = (c \<in> set ''0123456789'')"

definition digit_val :: "char \<Rightarrow> nat" where
  "digit_val c = (of_char c :: nat) - 48"

fun digits :: "nat \<Rightarrow> string" where
  "digits n = (if n < 10 then [digit_char n] else digits (n div 10) @ [digit_char (n mod 10)])"

declare digits.simps [simp del]

text \<open>
  \<open>Number.prototype.toFixed(f)\<close> as ECMAScript defines it: the sign is split off, \<open>n\<close> is
  the integer nearest to \<open>x * 10^f\<close> (the larger one of two), its digits are padded with
  zeros to \<open>f + 1\<close> places and the point goes before the last \<open>f\<close> of them. The exponent form
  that ECMAScript prescribes from \<open>10^21\<close> on is not modelled.
\<close>

fun toFixed :: "nat \<Rightarrow> jsnum \<Rightarrow> string" where
  "toFixed f NaN = ''NaN''"
| "toFixed f PosInf = ''Infinity''"
| "toFixed f NegInf = ''-Infinity''"
| "toFixed f (Num x) =
     (let s = (if x < 0 then ''-'' else '''');
          n = nat \<lfloor>\<bar>x\<bar> * 10 ^ f + 1 / 2\<rfloor>;
          m = digits n;
          m = (if length m \<le> f then replicate (f + 1 - length m) (CHR ''0'') @ m else m);
          k = length m
      in if f = 0 then s @ m
         else s @ take (k - f) m @ ''.'' @ drop (k - f) m)"

definition nat_of_digits :: "string \<Rightarrow> nat" where
  "nat_of_digits cs = foldl (\<lambda>acc c. acc * 10 + digit_val c) 0 cs"

definition is_space :: "char \<Rightarrow> bool" where
  "is_space c = (of_char c \<in> {9, 10, 11, 12, 13, 32 :: nat})"

text \<open>The exponent part of a decimal literal: \<open>e\<close> or \<open>E\<close>, an optional sign, digits.\<close>

definition exponent_part :: "string \<Rightarrow> int" where
  "exponent_part r =
     (case r of
        [] \<Rightarrow> 0
      | c # r1 \<Rightarrow>
          if c = CHR ''e'' \<or> c = CHR ''E'' then
            (case r1 of
               [] \<Rightarrow> 0
             | d # r2 \<Rightarrow>
                 if d = CHR ''-'' then
                   (if takeWhile is_digit r2 = [] then 0
                    else - int (nat_of_digits (takeWhile is_digit r2)))
                 else if d = CHR ''+'' then int (nat_of_digits (takeWhile is_digit r2))
                 else int (nat_of_digits (takeWhile is_digit r1)))
          else 0)"

definition scale10 :: "real \<Rightarrow> int \<Rightarrow> real" where
  "scale10 v e = (if 0 \<le> e then v * 10 ^ nat e else v / 10 ^ nat (- e))"

text \<open>
  \<open>parseFloat\<close>: leading white space is skipped, then the longest prefix that is a decimal
  literal is read; a string with no such prefix gives NaN.
\<close>

definition parseFloat :: "string \<Rightarrow> jsnum" where
  "parseFloat str =
     (let t = dropWhile is_space str;
          neg = (t \<noteq> [] \<and> hd t = CHR ''-'');
          u = (if t \<noteq> [] \<and> (hd t = CHR ''-'' \<or> hd t = CHR ''+'') then tl t else t)
      in if take 8 u = ''Infinity'' then (if neg then NegInf else PosInf)
         else
           let ip = takeWhile is_digit u;
               r1 = dropWhile is_digit u;
               dot = (r1 \<noteq> [] \<and> hd r1 = CHR ''.'');
               fp = (if dot then takeWhile is_digit (tl r1) else []);
               r2 = (if dot then dropWhile is_digit (tl r1) else r1)
           in if ip = [] \<and> fp = [] then NaN
              else
                let v = real (nat_of_digits ip) + real (nat_of_digits fp) / 10 ^ length fp;
                    w = scale10 v (exponent_part r2)
                in Num (if neg then - w else w))"

section \<open>Values of a layout document\<close>

text \<open>
  A layout document is what \<open>JSON.parse\<close> returns and what \<open>exportLayout\<close> builds: a
  JavaScript value. An object is the list of its properties, each name once.
\<close>

datatype jsval =
    Undefined
  | Null
  | Bool bool
  | Number jsnum
  | Str string
  | Arr "jsval list"
  | Obj "(string \<times> jsval) list"

datatype js_error = TypeError | SyntaxError

text \<open>
  Reading a property \<open>v.k\<close>, for the property names of a layout document: a TypeError on
  \<open>undefined\<close> and \<open>null\<close>, the property of an object, and \<open>undefined\<close> on every other value
  (numbers, strings, booleans and arrays have none of these names).
\<close>

fun get_prop :: "jsval \<Rightarrow> string \<Rightarrow> js_error + jsval" where
  "get_prop Undefined k = Inl TypeError"
| "get_prop Null k = Inl TypeError"
| "get_prop (Obj kvs) k = Inr (case map_of kvs k of None \<Rightarrow> Undefined | Some v \<Rightarrow> v)"
| "get_prop _ k = Inr Undefined"

text \<open>
  \<open>parseFloat(v)\<close> on a value: the value is turned into a string first. A number prints and
  parses back to itself; an array prints its elements separated by commas, so that only
  its first element is read; the other values print as words and give NaN.
\<close>

fun parseFloat_val :: "jsval \<Rightarrow> jsnum" where
  "parseFloat_val (Str s) = parseFloat s"
| "parseFloat_val (Number n) = n"
| "parseFloat_val (Arr (v # vs)) = parseFloat_val v"
| "parseFloat_val _ = NaN"

text \<open>
  The text a string-valued control holds after an assignment. The \<open>shape\<close> control is
  modelled as holding any string assigned to it, and the empty selection otherwise.
\<close>

fun cell_text :: "jsval \<Rightarrow> string" where
  "cell_text (Str s) = s"
| "cell_text _ = []"

text \<open>
  \<open>JSON.parse(JSON.stringify(v))\<close>, the way a document travels through the exported file:
  a number that is not finite becomes \<open>null\<close>, \<open>undefined\<close> becomes \<open>null\<close> in an array, and a
  property whose value is \<open>undefined\<close> is left out.
\<close>

fun JSON_roundtrip :: "jsval \<Rightarrow> jsval"
  and JSON_elements :: "jsval list \<Rightarrow> jsval list"
  and JSON_properties :: "(string \<times> jsval) list \<Rightarrow> (string \<times> jsval) list" where
  "JSON_roundtrip Undefined = Null"
| "JSON_roundtrip Null = Null"
| "JSON_roundtrip (Bool b) = Bool b"
| "JSON_roundtrip (Number (Num a)) = Number (Num a)"
| "JSON_roundtrip (Number PosInf) = Null"
| "JSON_roundtrip (Number NegInf) = Null"
| "JSON_roundtrip (Number NaN) = Null"
| "JSON_roundtrip (Str s) = Str s"
| "JSON_roundtrip (Arr vs) = Arr (JSON_elements vs)"
| "JSON_roundtrip (Obj kvs) = Obj (JSON_properties kvs)"
| "JSON_elements [] = []"
| "JSON_elements (v # vs) = JSON_roundtrip v # JSON_elements vs"
| "JSON_properties [] = []"
| "JSON_properties (kv # kvs) =
     (if snd kv = Undefined then JSON_properties kvs
      else (fst kv, JSON_roundtrip (snd kv)) # JSON_properties kvs)"

section \<open>The controls of the page and the information panel\<close>

text \<open>
  \<open>parseInt\<close> on a string: leading white space is skipped, a sign is taken off, the
  prefix \<open>0x\<close> or \<open>0X\<close> turns to base 16, and the digits up to the first character that is
  not a digit of the base are read; with no digit the result is NaN.
\<close>

definition is_hex_digit :: "char \<Rightarrow> bool" where
  "is_hex_digit c = (c \<in> set ''0123456789abcdefABCDEF'')"

definition hex_val :: "char \<Rightarrow> nat" where
  "hex_val c =
     (if (of_char c :: nat) \<le> 57 then of_char c - 48
      else if (of_char c :: nat) \<le> 70 then of_char c - 55
      else of_char c - 87)"

definition nat_of_hex :: "string \<Rightarrow> nat" where
  "nat_of_hex cs = foldl (\<lambda>acc c. acc * 16 + hex_val c) 0 cs"

definition parseInt :: "string \<Rightarrow> jsnum" where
  "parseInt str =
     (let t = dropWhile is_space str;
          neg = (t \<noteq> [] \<and> hd t = CHR ''-'');
          u = (if t \<noteq> [] \<and> (hd t = CHR ''-'' \<or> hd t = CHR ''+'') then tl t else t);
          hex = (take 2 u = ''0x'' \<or> take 2 u = ''0X'');
          z = (if hex then takeWhile is_hex_digit (drop 2 u) else takeWhile is_digit u);
          m = (if hex then nat_of_hex z else nat_of_digits z)
      in if z = [] then NaN else Num (if neg then - real m else real m))"

text \<open>
  The first significant digit of a positive number: what \<open>parseInt\<close> reads of a number
  that prints in exponent form, such as \<open>1e+21\<close> or \<open>2.5e-7\<close>.
\<close>

function leading_digit :: "real \<Rightarrow> int" where
  "leading_digit a =
     (if a \<le> 0 then 0
      else if a < 1 then leading_digit (a * 10)
      else if a < 10 then \<lfloor>a\<rfloor>
      else leading_digit (a / 10))"
  by pat_completeness auto

termination
proof (relation "measure (\<lambda>a. if a < 1 then nat \<lceil>1 / a\<rceil> + 10 else nat \<lfloor>a\<rfloor>)")
  show "wf (measure (\<lambda>a::real. if a < 1 then nat \<lceil>1 / a\<rceil> + 10 else nat \<lfloor>a\<rfloor>))"
    by simp
next
  fix a :: real
  assume pos: "\<not> a \<le> 0" and small: "a < 1"
  show "(a * 10, a) \<in> measure (\<lambda>a. if a < 1 then nat \<lceil>1 / a\<rceil> + 10 else nat \<lfloor>a\<rfloor>)"
  proof (cases "a * 10 < 1")
    case True
    have a: "0 < a" using pos by simp
    have y: "1 < 1 / (a * 10)" using True a by simp
    have "1 / a = 10 * (1 / (a * 10))" using a by simp
    with y have "1 / (a * 10) + 1 < 1 / a" by linarith
    then have "\<lceil>1 / (a * 10)\<rceil> < \<lceil>1 / a\<rceil>" by linarith
    moreover have "0 < \<lceil>1 / (a * 10)\<rceil>" using y by linarith
    ultimately have "nat \<lceil>1 / (a * 10)\<rceil> < nat \<lceil>1 / a\<rceil>" by linarith
    with True small show ?thesis by simp
  next
    case False
    have "a * 10 < 10" using small by simp
    then have "\<lfloor>a * 10\<rfloor> < 10" by linarith
    then have "nat \<lfloor>a * 10\<rfloor> < 10" by linarith
    with False small show ?thesis by simp
  qed
next
  fix a :: real
  assume "\<not> a \<le> 0" and "\<not> a < 1" and big: "\<not> a < 10"
  then have "1 \<le> a / 10" by simp
  moreover have "\<lfloor>a / 10\<rfloor> < \<lfloor>a\<rfloor>" using big by linarith
  moreover have "0 < \<lfloor>a\<rfloor>" using big by linarith
  ultimately show "(a / 10, a) \<in> measure (\<lambda>a. if a < 1 then nat \<lceil>1 / a\<rceil> + 10 else nat \<lfloor>a\<rfloor>)"
    by simp
qed

declare leading_digit.simps [simp del]

text \<open>
  \<open>parseInt(v)\<close> on a value: the value is turned into a string first. A number from
  \<open>10^-6\<close> up to \<open>10^21\<close> prints its whole part first, so \<open>parseInt\<close> reads the number cut off
  at the decimal point; a number outside that range prints in exponent form, of which
  \<open>parseInt\<close> reads the first digit only. NaN and the infinities print as words, an array
  prints its elements separated by commas, every other value prints as a word or as
  nothing.
\<close>

fun parseInt_val :: "jsval \<Rightarrow> jsnum" where
  "parseInt_val (Str s) = parseInt s"
| "parseInt_val (Number (Num x)) =
     (if x = 0 then Num 0
      else if 1 / 10 ^ 6 \<le> \<bar>x\<bar> \<and> \<bar>x\<bar> < 10 ^ 21
      then Num (of_int (if x < 0 then \<lceil>x\<rceil> else \<lfloor>x\<rfloor>))
      else Num (of_int (if x < 0 then - leading_digit \<bar>x\<bar> else leading_digit \<bar>x\<bar>)))"
| "parseInt_val (Number x) = NaN"
| "parseInt_val (Arr (v # vs)) = parseInt_val v"
| "parseInt_val v = NaN"

text \<open>
  The form controls \<open>shape\<close>, \<open>radius\<close>, \<open>height\<close> and \<open>crew\<close> of the page. The page itself
  is not part of the sources; a control is modelled as a cell. The cell of \<open>shape\<close> holds its
  text. The cells of \<open>radius\<close> and \<open>height\<close>, which the script reads with \<open>parseFloat\<close> only,
  hold the number that \<open>parseFloat\<close> finds in their text. The script reads \<open>crew\<close> with
  \<open>parseInt\<close>, whose result depends on how a number is written, so the cell of \<open>crew\<close> holds
  the value whose string is the text of the control: \<open>Str\<close> of a text that was typed into
  it, and otherwise the value that \<open>loadLayout\<close> assigned to it.
\<close>

record form =
  shape :: string
  radius :: jsnum
  height :: jsnum
  crew :: jsval

definition computeVolume :: "string \<Rightarrow> jsnum \<Rightarrow> jsnum \<Rightarrow> jsnum" where
  "computeVolume shp r h =
     (if shp = ''cylinder'' then jmul (jmul (jmul Math_PI r) r) h
      else if shp = ''dome'' then jmul (jmul (jdiv (Num 2) (Num 3)) Math_PI) (Math_pow r 3)
      else jadd (jmul (jmul (jmul Math_PI r) r) (jsub h (jmul r (Num 2))))
                (jmul (jmul (jdiv (Num 4) (Num 3)) Math_PI) (Math_pow r 3)))"

definition floorArea :: "jsnum \<Rightarrow> jsnum" where
  "floorArea r = jmul (jmul Math_PI r) r"

record info =
  volume_text :: string
  floor_area_text :: string
  per_astronaut_text :: string
  zones_count :: nat

definition updateInfo :: "form \<Rightarrow> nat \<Rightarrow> info" where
  "updateInfo fm n =
     (let r = radius fm;
          h = height fm;
          c = parseInt_val (crew fm);
          volume = computeVolume (shape fm) r h
      in \<lparr> volume_text = toFixed 1 volume,
           floor_area_text = toFixed 1 (floorArea r),
           per_astronaut_text = toFixed 1 (jdiv volume c),
           zones_count = n \<rparr>)"

section \<open>Zones and the state of the editor\<close>

record vec3 =
  vx :: jsnum
  vy :: jsnum
  vz :: jsnum

definition vec :: "real \<Rightarrow> real \<Rightarrow> real \<Rightarrow> vec3" where
  "vec a b c = \<lparr> vx = Num a, vy = Num b, vz = Num c \<rparr>"

text \<open>The vector operations of three.js that the script calls.\<close>

definition distanceTo :: "vec3 \<Rightarrow> vec3 \<Rightarrow> jsnum" where
  "distanceTo a b =
     (let dx = jsub (vx a) (vx b); dy = jsub (vy a) (vy b); dz = jsub (vz a) (vz b)
      in Math_sqrt (jadd (jadd (jmul dx dx) (jmul dy dy)) (jmul dz dz)))"

definition vec_add :: "vec3 \<Rightarrow> vec3 \<Rightarrow> vec3" where
  "vec_add a b = \<lparr> vx = jadd (vx a) (vx b), vy = jadd (vy a) (vy b), vz = jadd (vz a) (vz b) \<rparr>"

definition lerpVectors :: "vec3 \<Rightarrow> vec3 \<Rightarrow> jsnum \<Rightarrow> vec3" where
  "lerpVectors v1 v2 alpha =
     \<lparr> vx = jadd (vx v1) (jmul (jsub (vx v2) (vx v1)) alpha),
       vy = jadd (vy v1) (jmul (jsub (vy v2) (vy v1)) alpha),
       vz = jadd (vz v1) (jmul (jsub (vz v2) (vz v1)) alpha) \<rparr>"

text \<open>
  A zone is a mesh object. \<open>userData_type\<close> is \<open>userData.type\<close>, \<open>geometry\<close> the three sizes of
  its box. Its \<open>userData.id\<close> and its identity as an object are one natural number: the
  reference under which the state holds it.
\<close>

record zone =
  userData_type :: jsval
  position :: vec3
  rotation :: vec3
  scale :: vec3
  originalDimensions :: "(jsnum \<times> jsnum \<times> jsnum) option"
  geometry :: "jsnum \<times> jsnum \<times> jsnum"

text \<open>The numeric controls of the zone editor panel, as the numbers read from them.\<close>

record zone_editor =
  zone_pos_x :: jsnum
  zone_pos_y :: jsnum
  zone_pos_z :: jsnum
  zone_rot_x :: jsnum
  zone_rot_y :: jsnum
  zone_rot_z :: jsnum
  zone_scale :: jsnum
  zone_scale_x :: jsnum
  zone_scale_y :: jsnum
  zone_scale_z :: jsnum
  zone_width :: jsnum
  zone_height :: jsnum
  zone_depth :: jsnum

text \<open>
  The global variables of the script. \<open>mesh\<close> is the store of mesh objects and \<open>next_id\<close> the
  next unused reference; \<open>zones\<close>, \<open>selectedZone\<close>, \<open>selectedZones\<close> and
  \<open>currentEditingZone\<close> hold references. \<open>feedback\<close> is the last message of
  \<open>showFeedback\<close> with its validity flag.
\<close>

record editor =
  controls :: form
  panel :: zone_editor
  mesh :: "nat \<Rightarrow> zone"
  next_id :: nat
  zones :: "nat list"
  selectedZone :: "nat option"
  selectedZones :: "nat list"
  multiSelectMode :: bool
  currentEditingZone :: "nat option"
  uniformScaling :: bool
  isDragging :: bool
  dragStartPosition :: vec3
  snapToGrid :: bool
  showCrew :: bool
  controls_enabled :: bool
  feedback :: "(string \<times> bool) option"

definition showFeedback :: "string \<Rightarrow> bool \<Rightarrow> editor \<Rightarrow> editor" where
  "showFeedback message isValid s = s\<lparr> feedback := Some (message, isValid) \<rparr>"

definition set_position :: "nat \<Rightarrow> vec3 \<Rightarrow> editor \<Rightarrow> editor" where
  "set_position z p s = s\<lparr> mesh := (mesh s)(z := (mesh s z)\<lparr> position := p \<rparr>) \<rparr>"

section \<open>Adding, removing and loading zones\<close>

text \<open>
  The second argument of \<open>addZone\<close>: a position, or, when it is missing, the two draws of
  \<open>Math.random\<close> that the function then makes.
\<close>

datatype placement = At vec3 | Random real real

definition addZone :: "jsval \<Rightarrow> placement \<Rightarrow> editor \<Rightarrow> editor" where
  "addZone type pl s =
     (let r = radius (controls s);
          p = (case pl of
                 At pos \<Rightarrow> \<lparr> vx = vx pos, vy = vy pos, vz = vz pos \<rparr>
               | Random u v \<Rightarrow>
                   \<lparr> vx = jmul (jsub (Num u) (Num (1 / 2))) r, vy = Num 1,
                     vz = jmul (jsub (Num v) (Num (1 / 2))) r \<rparr>);
          zoneMesh = \<lparr> userData_type = type, position = p, rotation = vec 0 0 0,
                       scale = vec 1 1 1, originalDimensions = None,
                       geometry = (Num 2, Num 2, Num 2) \<rparr>
      in s\<lparr> mesh := (mesh s)(next_id s := zoneMesh),
            next_id := Suc (next_id s),
            zones := zones s @ [next_id s] \<rparr>)"

definition removeZone :: "nat \<Rightarrow> editor \<Rightarrow> editor" where
  "removeZone zid s = s\<lparr> zones := remove1 zid (zones s) \<rparr>"

definition resetHabitat :: "editor \<Rightarrow> editor" where
  "resetHabitat s = s\<lparr> zones := [], showCrew := False \<rparr>"

text \<open>The body of \<open>layout.zones.forEach\<close> in \<open>loadLayout\<close>, element by element.\<close>

fun load_zones :: "jsval list \<Rightarrow> editor \<Rightarrow> js_error \<times> editor + editor" where
  "load_zones [] s = Inr s"
| "load_zones (zoneData # rest) s =
     (case get_prop zoneData ''position'' of
        Inl e \<Rightarrow> Inl (e, s)
      | Inr p \<Rightarrow>
          (case get_prop p ''x'' of
             Inl e \<Rightarrow> Inl (e, s)
           | Inr x \<Rightarrow>
               (case get_prop p ''y'' of
                  Inl e \<Rightarrow> Inl (e, s)
                | Inr y \<Rightarrow>
                    (case get_prop p ''z'' of
                       Inl e \<Rightarrow> Inl (e, s)
                     | Inr z \<Rightarrow>
                         (case get_prop zoneData ''type'' of
                            Inl e \<Rightarrow> Inl (e, s)
                          | Inr ty \<Rightarrow>
                              load_zones rest
                                (addZone ty
                                   (At \<lparr> vx = parseFloat_val x, vy = parseFloat_val y,
                                         vz = parseFloat_val z \<rparr>) s))))))"

text \<open>
  \<open>loadLayout\<close>. An exception leaves the function with the state as it is at that point:
  \<open>Inl\<close> carries the error and that state. \<open>toFixed\<close> exists on numbers only and \<open>forEach\<close>
  on arrays only; calling them on any other value is a TypeError.
\<close>

definition loadLayout :: "jsval \<Rightarrow> editor \<Rightarrow> js_error \<times> editor + editor" where
  "loadLayout layout s0 =
     (let s = resetHabitat s0 in
      case get_prop layout ''habitat'' of
        Inl e \<Rightarrow> Inl (e, s)
      | Inr habitat \<Rightarrow>
          (case get_prop habitat ''shape'' of
             Inl e \<Rightarrow> Inl (e, s)
           | Inr shp \<Rightarrow>
               (case (get_prop habitat ''radius'', get_prop habitat ''height'',
                      get_prop habitat ''crew'') of
                  (Inr r, Inr h, Inr c) \<Rightarrow>
                    (let s = s\<lparr> controls := \<lparr> shape = cell_text shp, radius = parseFloat_val r,
                                               height = parseFloat_val h,
                                               crew = c \<rparr> \<rparr>
                     in case (r, h) of
                          (Number _, Number _) \<Rightarrow>
                            (case get_prop layout ''zones'' of
                               Inl e \<Rightarrow> Inl (e, s)
                             | Inr (Arr zs) \<Rightarrow>
                                 (case load_zones zs s of
                                    Inl es \<Rightarrow> Inl es
                                  | Inr s' \<Rightarrow> Inr (showFeedback ''Layout loaded!'' True s'))
                             | Inr _ \<Rightarrow> Inl (TypeError, s))
                        | _ \<Rightarrow> Inl (TypeError, s))
                | _ \<Rightarrow> Inl (TypeError, s))))"

definition zone_document :: "zone \<Rightarrow> jsval" where
  "zone_document z =
     Obj [(''type'', userData_type z),
          (''position'',
             Obj [(''x'', Str (toFixed 2 (vx (position z)))),
                  (''y'', Str (toFixed 2 (vy (position z)))),
                  (''z'', Str (toFixed 2 (vz (position z))))])]"

text \<open>\<open>exportLayout\<close> returns the document it offers for download.\<close>

definition exportLayout :: "editor \<Rightarrow> jsval \<times> editor" where
  "exportLayout s =
     (let layout =
            Obj [(''habitat'',
                    Obj [(''shape'', Str (shape (controls s))),
                         (''radius'', Number (radius (controls s))),
                         (''height'', Number (height (controls s))),
                         (''crew'', Number (parseInt_val (crew (controls s))))]),
                 (''zones'', Arr (map (\<lambda>z. zone_document (mesh s z)) (zones s)))]
      in (layout, showFeedback ''Layout exported!'' True s))"

text \<open>
  The \<open>onload\<close> handler of the file reader in \<open>setupEventListeners\<close>. Its argument is the
  outcome of \<open>JSON.parse\<close> on the file: the parsed value, or \<open>None\<close> for a SyntaxError.
\<close>

definition import_onload :: "jsval option \<Rightarrow> editor \<Rightarrow> editor" where
  "import_onload parsed s =
     (case parsed of
        None \<Rightarrow> showFeedback ''Invalid JSON file!'' False s
      | Some layout \<Rightarrow>
          (case loadLayout layout s of
             Inl (e, s') \<Rightarrow> showFeedback ''Invalid JSON file!'' False s'
           | Inr s' \<Rightarrow> s'))"

section \<open>Dragging a zone\<close>

text \<open>
  \<open>onPointerDown\<close>. The event gives the mouse button and the control key; \<open>hit\<close> is the
  first zone the ray through the pointer meets, if there is one.
\<close>

definition onPointerDown :: "nat \<Rightarrow> bool \<Rightarrow> nat option \<Rightarrow> editor \<Rightarrow> editor" where
  "onPointerDown button ctrlKey hit s =
     (if button \<noteq> 0 then s
      else
        case hit of
          Some z \<Rightarrow>
            (let s1 = s\<lparr> selectedZone := Some z,
                          dragStartPosition := position (mesh s z),
                          controls_enabled := False,
                          isDragging := True \<rparr>;
                 s2 = showFeedback ''Zone selected - drag to reposition'' True s1
             in if ctrlKey \<and> z \<notin> set (selectedZones s2)
                then s2\<lparr> selectedZones := selectedZones s2 @ [z], multiSelectMode := True \<rparr>
                else if \<not> ctrlKey then s2\<lparr> selectedZones := [z] \<rparr>
                else s2)
        | None \<Rightarrow> s\<lparr> selectedZones := [], multiSelectMode := False \<rparr>)"

text \<open>The grid step of \<open>onPointerMove\<close>: \<open>x\<close> and \<open>z\<close> of the point go to the grid.\<close>

definition gridSize :: jsnum where
  "gridSize = Num 1"

definition snap_point :: "bool \<Rightarrow> vec3 \<Rightarrow> vec3" where
  "snap_point snap point =
     (if snap
      then point\<lparr> vx := jmul (Math_round (jdiv (vx point) gridSize)) gridSize,
                   vz := jmul (Math_round (jdiv (vz point) gridSize)) gridSize \<rparr>
      else point)"

definition distanceFromCenter :: "vec3 \<Rightarrow> jsnum" where
  "distanceFromCenter p = Math_sqrt (jadd (jmul (vx p) (vx p)) (jmul (vz p) (vz p)))"

text \<open>The boundary check \<open>distanceFromCenter < radius - 1.5\<close> of both handlers.\<close>

definition withinBoundary :: "jsnum \<Rightarrow> vec3 \<Rightarrow> bool" where
  "withinBoundary r p = jless (distanceFromCenter p) (jsub r (Num (3 / 2)))"

text \<open>
  The collision loop of both handlers: the distance is taken from the position the
  selected zone has when the loop runs.
\<close>

fun hasCollision :: "(nat \<Rightarrow> zone) \<Rightarrow> nat \<Rightarrow> nat list \<Rightarrow> bool" where
  "hasCollision m sel [] = False"
| "hasCollision m sel (z # rest) =
     (if z \<noteq> sel \<and> jless (distanceTo (position (m sel)) (position (m z))) (Num (5 / 2))
      then True
      else hasCollision m sel rest)"

text \<open>
  \<open>onPointerMove\<close>. \<open>floor_hit\<close> is the point where the ray through the pointer meets the
  habitat floor, if it does. The branch for a pointer that drags nothing changes
  highlights and the cursor only.
\<close>

definition onPointerMove :: "vec3 option \<Rightarrow> editor \<Rightarrow> editor" where
  "onPointerMove floor_hit s =
     (case selectedZone s of
        None \<Rightarrow> s
      | Some sel \<Rightarrow>
          if \<not> isDragging s then s
          else
            case floor_hit of
              None \<Rightarrow> s
            | Some hit \<Rightarrow>
                (let r = radius (controls s);
                     point = snap_point (snapToGrid s) hit;
                     isValidPlacement = withinBoundary r point;
                     collision = hasCollision (mesh s) sel (zones s);
                     finalValid = (isValidPlacement \<and> \<not> collision);
                     s1 = set_position sel \<lparr> vx = vx point, vy = Num 1, vz = vz point \<rparr> s;
                     feedbackText =
                       (if finalValid then ''Valid placement''
                        else if collision then ''Too close to another zone''
                        else ''Outside habitat boundary'')
                 in showFeedback feedbackText finalValid s1))"

text \<open>
  \<open>animateZoneToPosition\<close>. The inner function \<open>animate\<close> runs once at the call and then
  once per animation frame while \<open>progress < 1\<close>. \<open>elapsed\<close> is the time in milliseconds
  that \<open>performance.now()\<close> shows since the start at the first run, \<open>later\<close> the times at the
  frames that follow. The frames are run in one go: events between two frames are not
  modelled.
\<close>

fun animate :: "nat \<Rightarrow> vec3 \<Rightarrow> vec3 \<Rightarrow> jsnum \<Rightarrow> real \<Rightarrow> real list \<Rightarrow> editor \<Rightarrow> editor" where
  "animate z startPosition targetPosition duration elapsed later s =
     (let progress = Math_min (jdiv (Num elapsed) duration) (Num 1);
          easeProgress = jsub (Num 1) (Math_pow (jsub (Num 1) progress) 3);
          s1 = set_position z (lerpVectors startPosition targetPosition easeProgress) s
      in if jless progress (Num 1)
         then (case later of
                 [] \<Rightarrow> s1
               | e # es \<Rightarrow> animate z startPosition targetPosition duration e es s1)
         else s1)"

declare animate.simps [simp del]

definition animateZoneToPosition :: "nat \<Rightarrow> vec3 \<Rightarrow> real \<Rightarrow> real list \<Rightarrow> editor \<Rightarrow> editor" where
  "animateZoneToPosition z targetPosition elapsed later s =
     (let startPosition = position (mesh s z);
          distance = distanceTo startPosition targetPosition;
          duration = Math_min (jmul distance (Num 200)) (Num 1000)
      in animate z startPosition targetPosition duration elapsed later s)"

text \<open>The final check of \<open>onPointerUp\<close> on the position the dragged zone has then.\<close>

definition isValidPlacement :: "editor \<Rightarrow> nat \<Rightarrow> bool" where
  "isValidPlacement s sel =
     (withinBoundary (radius (controls s)) (position (mesh s sel))
      \<and> \<not> hasCollision (mesh s) sel (zones s))"

text \<open>
  \<open>onPointerUp\<close>, with the frame times of the animation it may start. The timer it sets
  fires a second later and is the step \<open>deselect_timeout\<close>.
\<close>

definition onPointerUp :: "real \<Rightarrow> real list \<Rightarrow> editor \<Rightarrow> editor" where
  "onPointerUp elapsed later s =
     (case selectedZone s of
        None \<Rightarrow> s
      | Some sel \<Rightarrow>
          if \<not> isDragging s then s
          else
            (let s1 = s\<lparr> controls_enabled := True, isDragging := False \<rparr>
             in if \<not> isValidPlacement s1 sel
                then showFeedback ''Invalid placement - zone returned to original position'' False
                       (animateZoneToPosition sel (dragStartPosition s1) elapsed later s1)
                else showFeedback ''Zone positioned successfully'' True s1))"

definition deselect_timeout :: "editor \<Rightarrow> editor" where
  "deselect_timeout s = s\<lparr> selectedZone := None \<rparr>"

definition duplicateZone :: "nat \<Rightarrow> editor \<Rightarrow> editor" where
  "duplicateZone z s =
     (let offset = vec 3 0 0;
          newPosition = vec_add (position (mesh s z)) offset
      in showFeedback ''Zone duplicated'' True
           (addZone (userData_type (mesh s z)) (At newPosition) s))"

section \<open>The zone editor panel\<close>

definition populateZoneEditor :: "nat \<Rightarrow> editor \<Rightarrow> editor" where
  "populateZoneEditor z s =
     (let m = mesh s z;
          deg = (\<lambda>a. Math_round (jdiv (jmul a (Num 180)) Math_PI));
          dims = (case originalDimensions m of
                    None \<Rightarrow> (Num 2, Num 2, Num 2)
                  | Some d \<Rightarrow> d);
          e = (panel s)\<lparr> zone_pos_x := parseFloat (toFixed 1 (vx (position m))),
                          zone_pos_y := parseFloat (toFixed 1 (vy (position m))),
                          zone_pos_z := parseFloat (toFixed 1 (vz (position m))),
                          zone_rot_x := deg (vx (rotation m)),
                          zone_rot_y := deg (vy (rotation m)),
                          zone_rot_z := deg (vz (rotation m)),
                          zone_scale := parseFloat (toFixed 1 (vx (scale m))) \<rparr>;
          e = (if \<not> uniformScaling s
               then e\<lparr> zone_scale_x := parseFloat (toFixed 1 (vx (scale m))),
                       zone_scale_y := parseFloat (toFixed 1 (vy (scale m))),
                       zone_scale_z := parseFloat (toFixed 1 (vz (scale m))) \<rparr>
               else e);
          e = e\<lparr> zone_width := fst dims, zone_height := fst (snd dims),
                  zone_depth := snd (snd dims) \<rparr>
      in s\<lparr> panel := e \<rparr>)"

definition openZoneEditor :: "nat \<Rightarrow> editor \<Rightarrow> editor" where
  "openZoneEditor z s =
     showFeedback ''Zone editor opened'' True
       (populateZoneEditor z (s\<lparr> currentEditingZone := Some z \<rparr>))"

definition updateZonePosition :: "editor \<Rightarrow> editor" where
  "updateZonePosition s =
     (case currentEditingZone s of
        None \<Rightarrow> s
      | Some z \<Rightarrow>
          set_position z \<lparr> vx = zone_pos_x (panel s), vy = zone_pos_y (panel s),
                           vz = zone_pos_z (panel s) \<rparr> s)"

definition updateZoneRotation :: "editor \<Rightarrow> editor" where
  "updateZoneRotation s =
     (case currentEditingZone s of
        None \<Rightarrow> s
      | Some z \<Rightarrow>
          (let rad = (\<lambda>a. jdiv (jmul a Math_PI) (Num 180));
               r = \<lparr> vx = rad (zone_rot_x (panel s)), vy = rad (zone_rot_y (panel s)),
                     vz = rad (zone_rot_z (panel s)) \<rparr>
           in s\<lparr> mesh := (mesh s)(z := (mesh s z)\<lparr> rotation := r \<rparr>) \<rparr>))"

definition updateZoneScale :: "editor \<Rightarrow> editor" where
  "updateZoneScale s =
     (case currentEditingZone s of
        None \<Rightarrow> s
      | Some z \<Rightarrow>
          (let c = (if uniformScaling s
                    then \<lparr> vx = zone_scale (panel s), vy = zone_scale (panel s),
                           vz = zone_scale (panel s) \<rparr>
                    else \<lparr> vx = zone_scale_x (panel s), vy = zone_scale_y (panel s),
                           vz = zone_scale_z (panel s) \<rparr>)
           in s\<lparr> mesh := (mesh s)(z := (mesh s z)\<lparr> scale := c \<rparr>) \<rparr>))"

definition updateZoneDimensions :: "editor \<Rightarrow> editor" where
  "updateZoneDimensions s =
     (case currentEditingZone s of
        None \<Rightarrow> s
      | Some z \<Rightarrow>
          (let d = (zone_width (panel s), zone_height (panel s), zone_depth (panel s))
           in s\<lparr> mesh := (mesh s)(z := (mesh s z)\<lparr> originalDimensions := Some d,
                                                     geometry := d \<rparr>) \<rparr>))"

text \<open>
  \<open>applyZoneChanges\<close>. Its last two calls, \<open>updateZoneColor\<close> and \<open>updateZoneMaterial\<close>,
  change the material of the mesh only.
\<close>

definition applyZoneChanges :: "editor \<Rightarrow> editor" where
  "applyZoneChanges s =
     (case currentEditingZone s of
        None \<Rightarrow> s
      | Some z \<Rightarrow>
          showFeedback ''Zone changes applied successfully!'' True
            (updateZoneDimensions (updateZoneScale (updateZoneRotation (updateZonePosition s)))))"

definition resetZoneToDefaults :: "editor \<Rightarrow> editor" where
  "resetZoneToDefaults s =
     (case currentEditingZone s of
        None \<Rightarrow> s
      | Some z \<Rightarrow>
          (let s1 = s\<lparr> mesh := (mesh s)(z := (mesh s z)\<lparr> position := vec 0 1 0,
                                                          rotation := vec 0 0 0,
                                                          scale := vec 1 1 1 \<rparr>) \<rparr>
           in showFeedback ''Zone reset to defaults'' True
                (applyZoneChanges (populateZoneEditor z s1))))"

definition closeZoneEditor :: "editor \<Rightarrow> editor" where
  "closeZoneEditor s =
     showFeedback ''Zone editor closed'' True (s\<lparr> currentEditingZone := None \<rparr>)"

text \<open>
  The \<open>input\<close> listeners of the three position fields and of the scale slider: the user
  has put \<open>text\<close> into the field, then the listener runs.
\<close>

datatype axis = X | Y | Z

definition zone_pos_input :: "axis \<Rightarrow> string \<Rightarrow> editor \<Rightarrow> editor" where
  "zone_pos_input ax text s =
     (let e = (case ax of
                 X \<Rightarrow> (panel s)\<lparr> zone_pos_x := parseFloat text \<rparr>
               | Y \<Rightarrow> (panel s)\<lparr> zone_pos_y := parseFloat text \<rparr>
               | Z \<Rightarrow> (panel s)\<lparr> zone_pos_z := parseFloat text \<rparr>)
      in updateZonePosition (s\<lparr> panel := e \<rparr>))"

definition zone_scale_input :: "string \<Rightarrow> editor \<Rightarrow> editor" where
  "zone_scale_input text s =
     (let s1 = s\<lparr> panel := (panel s)\<lparr> zone_scale := parseFloat text \<rparr> \<rparr>
      in if uniformScaling s1 then updateZoneScale s1 else s1)"

text \<open>
  The \<open>input\<close> listener of the \<open>crew\<close> control: the user has put \<open>text\<close> into the control.
  The listener shows the text beside the control and calls \<open>updateInfo\<close>, which is a function of
  the controls here; it also rebuilds the crew avatars when they are shown, and these are
  not part of the state.
\<close>

definition crew_input :: "string \<Rightarrow> editor \<Rightarrow> editor" where
  "crew_input text s = s\<lparr> controls := (controls s)\<lparr> crew := Str text \<rparr> \<rparr>"

section \<open>Start of the editor\<close>

definition initialLayoutData :: jsval where
  "initialLayoutData =
     (let zone = (\<lambda>t x y z.
            Obj [(''type'', Str t),
                 (''position'', Obj [(''x'', Str x), (''y'', Str y), (''z'', Str z)])])
      in Obj [(''habitat'',
                 Obj [(''shape'', Str ''dome''), (''radius'', Number (Num 10)),
                      (''height'', Number (Num 15)), (''crew'', Number (Num 8))]),
              (''zones'',
                 Arr [zone ''sleeping'' ''7.27'' ''1.00'' ''0.81'',
                      zone ''bathroom'' ''-5.92'' ''1.00'' ''-6.11'',
                      zone ''storage'' ''6.64'' ''1.00'' ''-7.05'',
                      zone ''exercise'' ''-0.54'' ''1.00'' ''-2.41'',
                      zone ''workstation'' ''6.97'' ''1.00'' ''-6.19'',
                      zone ''kitchen'' ''-3.43'' ''1.00'' ''-0.62'',
                      zone ''airlock'' ''3.80'' ''1.00'' ''-1.15'',
                      zone ''medical'' ''6.36'' ''1.00'' ''3.71''])])"

text \<open>
  The global variables as the script declares them, over the controls of the page as
  they stand before the script runs. No mesh exists yet.
\<close>

definition no_zone :: zone where
  "no_zone = \<lparr> userData_type = Undefined, position = vec 0 0 0, rotation = vec 0 0 0,
               scale = vec 1 1 1, originalDimensions = None,
               geometry = (Num 2, Num 2, Num 2) \<rparr>"

definition globals :: "form \<Rightarrow> zone_editor \<Rightarrow> editor" where
  "globals fm ed =
     \<lparr> controls = fm, panel = ed, mesh = (\<lambda>_. no_zone), next_id = 0, zones = [],
       selectedZone = None, selectedZones = [], multiSelectMode = False,
       currentEditingZone = None, uniformScaling = True, isDragging = False,
       dragStartPosition = vec 0 0 0, snapToGrid = True, showCrew = False,
       controls_enabled = True, feedback = None \<rparr>"

text \<open>\<open>init\<close> loads \<open>initialLayoutData\<close>; an exception would end it.\<close>

definition init :: "form \<Rightarrow> zone_editor \<Rightarrow> js_error \<times> editor + editor" where
  "init fm ed = loadLayout initialLayoutData (globals fm ed)"

section \<open>Sessions used as examples\<close>

text \<open>
  A page whose controls hold the habitat of \<open>initialLayoutData\<close> and whose editor panel is
  empty, the editor after \<open>init\<close> on that page, and an editor with two zones added at given
  positions, before and after the pointer went down on the first of them.
\<close>

definition page_form :: form where
  "page_form = \<lparr> shape = ''dome'', radius = Num 10, height = Num 15, crew = Str ''8'' \<rparr>"

definition blank_panel :: zone_editor where
  "blank_panel =
     \<lparr> zone_pos_x = NaN, zone_pos_y = NaN, zone_pos_z = NaN,
       zone_rot_x = NaN, zone_rot_y = NaN, zone_rot_z = NaN, zone_scale = NaN,
       zone_scale_x = NaN, zone_scale_y = NaN, zone_scale_z = NaN,
       zone_width = NaN, zone_height = NaN, zone_depth = NaN \<rparr>"

definition started :: editor where
  "started = (case init page_form blank_panel of Inr s \<Rightarrow> s | Inl (e, s) \<Rightarrow> s)"

definition two_zones :: "vec3 \<Rightarrow> vec3 \<Rightarrow> editor" where
  "two_zones a b =
     addZone (Str ''storage'') (At b)
       (addZone (Str ''sleeping'') (At a) (globals page_form blank_panel))"

definition dragging_first :: "vec3 \<Rightarrow> vec3 \<Rightarrow> editor" where
  "dragging_first a b = onPointerDown 0 False (Some 0) (two_zones a b)"

section \<open>Notions used in the statements\<close>

text \<open>
  Rounding to two decimal places, a half away from zero; the special values stay as they
  are.
\<close>

fun round2 :: "jsnum \<Rightarrow> jsnum" where
  "round2 (Num x) =
     Num (if x < 0 then - (of_int \<lfloor>\<bar>x\<bar> * 100 + 1 / 2\<rfloor> / 100)
          else of_int \<lfloor>\<bar>x\<bar> * 100 + 1 / 2\<rfloor> / 100)"
| "round2 v = v"

text \<open>The digit string inside \<open>toFixed\<close>, after the padding with zeros.\<close>

definition padded :: "nat \<Rightarrow> nat \<Rightarrow> string" where
  "padded f n =
     (if length (digits n) \<le> f then replicate (f + 1 - length (digits n)) (CHR ''0'') @ digits n
      else digits n)"

text \<open>
  A layout document in the format of the exported file: \<open>habitat\<close> is an object with a
  string \<open>shape\<close> and numbers \<open>radius\<close>, \<open>height\<close> and \<open>crew\<close>; \<open>zones\<close> is an array of objects,
  each with a \<open>position\<close> object whose \<open>x\<close>, \<open>y\<close> and \<open>z\<close> are strings. The functions read the
  fields of such a document and give \<open>None\<close> for any other value.
\<close>

definition habitat_fields :: "jsval \<Rightarrow> (string \<times> real \<times> real \<times> real) option" where
  "habitat_fields layout =
     (case layout of
        Obj kvs \<Rightarrow>
          (case map_of kvs ''habitat'' of
             Some (Obj hk) \<Rightarrow>
               (case (map_of hk ''shape'', map_of hk ''radius'', map_of hk ''height'',
                      map_of hk ''crew'') of
                  (Some (Str shp), Some (Number (Num r)), Some (Number (Num h)),
                   Some (Number (Num c))) \<Rightarrow> Some (shp, r, h, c)
                | _ \<Rightarrow> None)
           | _ \<Rightarrow> None)
      | _ \<Rightarrow> None)"

definition zone_fields :: "jsval \<Rightarrow> (jsval \<times> string \<times> string \<times> string) option" where
  "zone_fields zoneData =
     (case zoneData of
        Obj kvs \<Rightarrow>
          (case map_of kvs ''position'' of
             Some (Obj p) \<Rightarrow>
               (case (map_of p ''x'', map_of p ''y'', map_of p ''z'') of
                  (Some (Str x), Some (Str y), Some (Str z)) \<Rightarrow>
                    Some (case map_of kvs ''type'' of None \<Rightarrow> Undefined | Some t \<Rightarrow> t, x, y, z)
                | _ \<Rightarrow> None)
           | _ \<Rightarrow> None)
      | _ \<Rightarrow> None)"

definition zones_fields :: "jsval \<Rightarrow> (jsval \<times> string \<times> string \<times> string) list option" where
  "zones_fields layout =
     (case layout of
        Obj kvs \<Rightarrow>
          (case map_of kvs ''zones'' of
             Some (Arr zs) \<Rightarrow> those (map zone_fields zs)
           | _ \<Rightarrow> None)
      | _ \<Rightarrow> None)"

text \<open>The mesh that \<open>addZone\<close> makes for a zone of a document.\<close>

definition loaded_zone :: "jsval \<times> string \<times> string \<times> string \<Rightarrow> zone" where
  "loaded_zone f =
     (case f of
        (t, x, y, z) \<Rightarrow>
          \<lparr> userData_type = t,
            position = \<lparr> vx = parseFloat x, vy = parseFloat y, vz = parseFloat z \<rparr>,
            rotation = vec 0 0 0, scale = vec 1 1 1, originalDimensions = None,
            geometry = (Num 2, Num 2, Num 2) \<rparr>)"

text \<open>The state a call ends in, whether it returns or throws.\<close>

definition outcome :: "js_error \<times> editor + editor \<Rightarrow> editor" where
  "outcome res = (case res of Inl (e, s) \<Rightarrow> s | Inr s \<Rightarrow> s)"

text \<open>The step of \<open>loadLayout\<close> for one zone of a document, on the fields read from it.\<close>

definition add_loaded :: "editor \<Rightarrow> jsval \<times> string \<times> string \<times> string \<Rightarrow> editor" where
  "add_loaded s f =
     addZone (fst f)
       (At \<lparr> vx = parseFloat (fst (snd f)), vy = parseFloat (fst (snd (snd f))),
             vz = parseFloat (snd (snd (snd f))) \<rparr>) s"

text \<open>
  Export followed by import of the exported file: the document goes through
  \<open>JSON.stringify\<close> and \<open>JSON.parse\<close> and is loaded into the editor that exported it.
\<close>

definition reimport :: "editor \<Rightarrow> editor" where
  "reimport s = import_onload (Some (JSON_roundtrip (fst (exportLayout s)))) (snd (exportLayout s))"

text \<open>
  Further examples: the two zones at \<open>(0, 1, 0)\<close> and \<open>(5, 1, 0)\<close> with the zone editor open on
  the first one, the same with the pointer down on that zone, a document without zones,
  and a document whose second zone is \<open>null\<close>.
\<close>

definition editing_first :: editor where
  "editing_first = openZoneEditor 0 (two_zones (vec 0 1 0) (vec 5 1 0))"

definition editing_and_dragging :: editor where
  "editing_and_dragging = onPointerDown 0 False (Some 0) editing_first"

definition empty_layout :: jsval where
  "empty_layout =
     Obj [(''habitat'',
             Obj [(''shape'', Str ''cylinder''), (''radius'', Number (Num 12)),
                  (''height'', Number (Num 20)), (''crew'', Number (Num 6))]),
          (''zones'', Arr [])]"

definition broken_layout :: jsval where
  "broken_layout =
     Obj [(''habitat'',
             Obj [(''shape'', Str ''cylinder''), (''radius'', Number (Num 12)),
                  (''height'', Number (Num 20)), (''crew'', Number (Num 6))]),
          (''zones'',
             Arr [Obj [(''type'', Str ''medical''),
                       (''position'',
                          Obj [(''x'', Str ''1.50''), (''y'', Str ''1.00''), (''z'', Str ''-2.00'')])],
                  Null])]"

section \<open>Bounds on pi\<close>

text \<open>
  The figures of the information panel are decimal texts of multiples of pi, so they need
  pi to five digits: Machin's formula and the alternating series of the arctangent.
\<close>

lemma arctan_series_bounds:
  fixes x :: real
  assumes "0 < x" "x \<le> 1"
  shows "(\<Sum>i<2*n. (- 1) ^ i * (1 / real (i * 2 + 1) * x ^ (i * 2 + 1))) \<le> arctan x"
    and "arctan x \<le> (\<Sum>i<2*n+1. (- 1) ^ i * (1 / real (i * 2 + 1) * x ^ (i * 2 + 1)))"
proof -
  have ax: "\<bar>x\<bar> \<le> 1" using assms by simp
  have pos: "0 < 1 / real (0 * 2 + 1) * x ^ (0 * 2 + 1)" using assms by simp
  from summable_Leibniz(2)[OF zeroseq_arctan_series[OF ax] monoseq_arctan_series[OF ax]] pos
  have "\<forall>n. (\<Sum>i. (- 1) ^ i * (1 / real (i * 2 + 1) * x ^ (i * 2 + 1)))
      \<in> {\<Sum>i<2*n. (- 1) ^ i * (1 / real (i * 2 + 1) * x ^ (i * 2 + 1)) ..
         \<Sum>i<2*n+1. (- 1) ^ i * (1 / real (i * 2 + 1) * x ^ (i * 2 + 1))}"
    by blast
  then have b: "(\<Sum>i. (- 1) ^ i * (1 / real (i * 2 + 1) * x ^ (i * 2 + 1)))
      \<in> {\<Sum>i<2*n. (- 1) ^ i * (1 / real (i * 2 + 1) * x ^ (i * 2 + 1)) ..
         \<Sum>i<2*n+1. (- 1) ^ i * (1 / real (i * 2 + 1) * x ^ (i * 2 + 1))}"
    by blast
  from b arctan_series[OF ax]
  show "(\<Sum>i<2*n. (- 1) ^ i * (1 / real (i * 2 + 1) * x ^ (i * 2 + 1))) \<le> arctan x"
    and "arctan x \<le> (\<Sum>i<2*n+1. (- 1) ^ i * (1 / real (i * 2 + 1) * x ^ (i * 2 + 1)))"
    by simp_all
qed

lemma arctan_fifth_lower: "(1/5 - 1/375 + 1/15625 - 1/546875 :: real) \<le> arctan (1/5)"
proof -
  have "(\<Sum>i<2*2. (- 1) ^ i * (1 / real (i * 2 + 1) * (1/5) ^ (i * 2 + 1))) = (1/5 - 1/375 + 1/15625 - 1/546875 :: real)"
    by (simp add: lessThan_nat_numeral lessThan_Suc power_divide)
  with arctan_series_bounds(1)[of "1/5" 2] show ?thesis by simp
qed

lemma arctan_fifth_upper: "arctan (1/5) \<le> (1/5 - 1/375 + 1/15625 :: real)"
proof -
  have "(\<Sum>i<2*1+1. (- 1) ^ i * (1 / real (i * 2 + 1) * (1/5) ^ (i * 2 + 1))) = (1/5 - 1/375 + 1/15625 :: real)"
    by (simp add: lessThan_nat_numeral lessThan_Suc power_divide)
  with arctan_series_bounds(2)[of "1/5" 1] show ?thesis by simp
qed

lemma arctan_239_upper: "arctan (1/239) \<le> (1/239 :: real)"
  using arctan_series_bounds(2)[of "1/239" 0] by simp

lemma arctan_239_lower: "(1/239 - 1/40955757 :: real) \<le> arctan (1/239)"
proof -
  have "(\<Sum>i<2*1. (- 1) ^ i * (1 / real (i * 2 + 1) * (1/239) ^ (i * 2 + 1))) = (1/239 - 1/40955757 :: real)"
    by (simp add: lessThan_nat_numeral lessThan_Suc power_divide)
  with arctan_series_bounds(1)[of "1/239" 1] show ?thesis by simp
qed

lemma pi_lower: "314159 / 100000 < pi"
proof -
  have "pi = 16 * arctan (1/5) - 4 * arctan (1/239)" using machin by simp
  with arctan_fifth_lower arctan_239_upper show ?thesis by linarith
qed

lemma pi_upper: "pi < 314165 / 100000"
proof -
  have "pi = 16 * arctan (1/5) - 4 * arctan (1/239)" using machin by simp
  with arctan_fifth_upper arctan_239_lower show ?thesis by linarith
qed

lemma computeVolume_real:
  "computeVolume ''dome'' (Num r) (Num h) = Num (2 / 3 * pi * r ^ 3)"
  "computeVolume ''cylinder'' (Num r) (Num h) = Num (pi * r\<^sup>2 * h)"
  "shp \<noteq> ''cylinder'' \<Longrightarrow> shp \<noteq> ''dome'' \<Longrightarrow> computeVolume shp (Num r) (Num h) = Num (pi * r\<^sup>2 * (h - 2 * r) + 4 / 3 * pi * r ^ 3)"
  by (simp_all add: computeVolume_def Math_PI_def jsub_def power2_eq_square power3_eq_cube numeral_3_eq_3 algebra_simps)

lemma floorArea_real: "floorArea (Num r) = Num (pi * r\<^sup>2)"
  by (simp add: floorArea_def Math_PI_def power2_eq_square)

lemma toFixed1_dome: "toFixed 1 (Num (2 / 3 * pi * 10 ^ 3)) = ''2094.4''"
proof -
  have "\<lfloor>\<bar>2 / 3 * pi * 10 ^ 3\<bar> * 10 ^ 1 + 1 / 2\<rfloor> = 20944"
    using pi_lower pi_upper by (intro floor_unique) (simp_all add: abs_mult)
  then have fl: "nat \<lfloor>\<bar>2 / 3 * pi * 10 ^ 3\<bar> * 10 ^ 1 + 1 / 2\<rfloor> = 20944" by simp
  have nn: "\<not> 2 / 3 * pi * 10 ^ 3 < 0" by simp
  show ?thesis
    unfolding toFixed.simps fl by (simp add: digits.simps digit_char_def Let_def)
qed

lemma toFixed1_floor: "toFixed 1 (Num (pi * 10\<^sup>2)) = ''314.2''"
proof -
  have "\<lfloor>\<bar>pi * 10\<^sup>2\<bar> * 10 ^ 1 + 1 / 2\<rfloor> = 3142"
    using pi_lower pi_upper by (intro floor_unique) (simp_all add: abs_mult)
  then have fl: "nat \<lfloor>\<bar>pi * 10\<^sup>2\<bar> * 10 ^ 1 + 1 / 2\<rfloor> = 3142" by simp
  show ?thesis
    unfolding toFixed.simps fl by (simp add: digits.simps digit_char_def Let_def)
qed

lemma toFixed1_crew: "toFixed 1 (Num (2 / 3 * pi * 10 ^ 3 / 8)) = ''261.8''"
proof -
  have "\<lfloor>\<bar>2 / 3 * pi * 10 ^ 3 / 8\<bar> * 10 ^ 1 + 1 / 2\<rfloor> = 2618"
    using pi_lower pi_upper by (intro floor_unique) (simp_all add: abs_mult)
  then have fl: "nat \<lfloor>\<bar>2 / 3 * pi * 10 ^ 3 / 8\<bar> * 10 ^ 1 + 1 / 2\<rfloor> = 2618" by simp
  show ?thesis
    unfolding toFixed.simps fl by (simp add: digits.simps digit_char_def Let_def)
qed

text \<open>
  C7: for a real radius and height, \<open>updateInfo\<close> shows as the volume the text of
  \<open>2/3 * pi * radius^3\<close> for a dome, of \<open>pi * radius^2 * height\<close> for a cylinder and of
  \<open>pi * radius^2 * (height - 2 * radius) + 4/3 * pi * radius^3\<close> for a capsule (the branch of
  every other shape), as the floor area the text of \<open>pi * radius^2\<close>, and as the volume per
  astronaut the text of the volume divided by the crew that \<open>parseInt\<close> reads from the crew
  control, when that is a number other than zero; the texts are those of \<open>toFixed(1)\<close>. For
  a dome of radius 10, height 15 and a crew of 8 the panel shows 2094.4 for the volume,
  314.2 for the floor area and 261.8 per astronaut.
\<close>

theorem C7_computeVolume:
  fixes r h v c :: real
  shows "computeVolume ''dome'' (Num r) (Num h) = Num (2 / 3 * pi * r ^ 3)
    \<and> computeVolume ''cylinder'' (Num r) (Num h) = Num (pi * r\<^sup>2 * h)
    \<and> computeVolume ''capsule'' (Num r) (Num h)
        = Num (pi * r\<^sup>2 * (h - 2 * r) + 4 / 3 * pi * r ^ 3)
    \<and> floorArea (Num r) = Num (pi * r\<^sup>2)
    \<and> volume_text (updateInfo \<lparr> shape = ''dome'', radius = Num r, height = Num h, crew = cr \<rparr> n)
        = toFixed 1 (Num (2 / 3 * pi * r ^ 3))
    \<and> volume_text (updateInfo \<lparr> shape = ''cylinder'', radius = Num r, height = Num h, crew = cr \<rparr> n)
        = toFixed 1 (Num (pi * r\<^sup>2 * h))
    \<and> volume_text (updateInfo \<lparr> shape = ''capsule'', radius = Num r, height = Num h, crew = cr \<rparr> n)
        = toFixed 1 (Num (pi * r\<^sup>2 * (h - 2 * r) + 4 / 3 * pi * r ^ 3))
    \<and> floor_area_text (updateInfo \<lparr> shape = shp, radius = Num r, height = Num h, crew = cr \<rparr> n)
        = toFixed 1 (Num (pi * r\<^sup>2))
    \<and> zones_count (updateInfo \<lparr> shape = shp, radius = Num r, height = Num h, crew = cr \<rparr> n) = n
    \<and> (computeVolume shp (Num r) (Num h) = Num v \<longrightarrow> parseInt_val cr = Num c \<longrightarrow> c \<noteq> 0 \<longrightarrow>
         per_astronaut_text
           (updateInfo \<lparr> shape = shp, radius = Num r, height = Num h, crew = cr \<rparr> n)
         = toFixed 1 (Num (v / c)))
    \<and> updateInfo \<lparr> shape = ''dome'', radius = Num 10, height = Num 15, crew = Str ''8'' \<rparr> n
        = \<lparr> volume_text = ''2094.4'', floor_area_text = ''314.2'',
            per_astronaut_text = ''261.8'', zones_count = n \<rparr>"
proof -
  have vol: "volume_text (updateInfo \<lparr> shape = s', radius = Num r, height = Num h, crew = cr \<rparr> n)
      = toFixed 1 (computeVolume s' (Num r) (Num h))" for s'
    unfolding updateInfo_def Let_def by (simp only: form.simps info.simps)
  have flo: "floor_area_text (updateInfo \<lparr> shape = shp, radius = Num r, height = Num h, crew = cr \<rparr> n)
      = toFixed 1 (Num (pi * r\<^sup>2))"
    unfolding updateInfo_def Let_def by (simp only: form.simps info.simps floorArea_real)
  have cnt: "zones_count (updateInfo \<lparr> shape = shp, radius = Num r, height = Num h, crew = cr \<rparr> n) = n"
    unfolding updateInfo_def Let_def by (simp only: info.simps)
  have per: "computeVolume shp (Num r) (Num h) = Num v \<longrightarrow> parseInt_val cr = Num c \<longrightarrow> c \<noteq> 0 \<longrightarrow>
         per_astronaut_text
           (updateInfo \<lparr> shape = shp, radius = Num r, height = Num h, crew = cr \<rparr> n)
         = toFixed 1 (Num (v / c))"
  proof (intro impI)
    assume v: "computeVolume shp (Num r) (Num h) = Num v" and c: "parseInt_val cr = Num c"
      and nz: "c \<noteq> 0"
    have q: "jdiv (Num v) (Num c) = Num (v / c)" using nz by simp
    show "per_astronaut_text
           (updateInfo \<lparr> shape = shp, radius = Num r, height = Num h, crew = cr \<rparr> n)
         = toFixed 1 (Num (v / c))"
      unfolding updateInfo_def Let_def by (simp only: form.simps info.simps v c q)
  qed
  have eight: "parseInt_val (Str ''8'') = Num 8"
    by (simp add: parseInt_def is_space_def is_digit_def nat_of_digits_def digit_val_def)
  have share: "jdiv (Num (2 / 3 * pi * 10 ^ 3)) (Num 8) = Num (2 / 3 * pi * 10 ^ 3 / 8)"
    by simp
  have scenario: "updateInfo \<lparr> shape = ''dome'', radius = Num 10, height = Num 15, crew = Str ''8'' \<rparr> n
        = \<lparr> volume_text = ''2094.4'', floor_area_text = ''314.2'',
            per_astronaut_text = ''261.8'', zones_count = n \<rparr>"
    unfolding updateInfo_def Let_def
    by (simp only: form.simps eight computeVolume_real(1) floorArea_real share
          toFixed1_dome toFixed1_floor toFixed1_crew)
  have capsule: "computeVolume ''capsule'' (Num r) (Num h)
        = Num (pi * r\<^sup>2 * (h - 2 * r) + 4 / 3 * pi * r ^ 3)"
    by (rule computeVolume_real(3)) simp_all
  from vol[of "''dome''"] vol[of "''cylinder''"] vol[of "''capsule''"] flo cnt per scenario capsule
  show ?thesis
    by (simp only: computeVolume_real(1,2) floorArea_real)
qed

theorem C7_computeVolume_witness:
  "computeVolume ''dome'' (Num 10) (Num 15) = Num (2 / 3 * pi * 10 ^ 3)
   \<and> parseInt_val (Str ''8'') = Num 8 \<and> (8::real) \<noteq> 0
   \<and> per_astronaut_text
        (updateInfo \<lparr> shape = ''dome'', radius = Num 10, height = Num 15, crew = Str ''8'' \<rparr> 0)
      = toFixed 1 (Num (2 / 3 * pi * 10 ^ 3 / 8))"
proof -
  have v: "computeVolume ''dome'' (Num 10) (Num 15) = Num (2 / 3 * pi * 10 ^ 3)"
    by (rule computeVolume_real(1))
  have eight: "parseInt_val (Str ''8'') = Num 8"
    by (simp add: parseInt_def is_space_def is_digit_def nat_of_digits_def digit_val_def)
  have nz: "(8::real) \<noteq> 0" by simp
  from C7_computeVolume [of 10 15 "Str ''8''" 0 "''dome''" "2 / 3 * pi * 10 ^ 3" 8] v eight nz
  show ?thesis by blast
qed

section \<open>Evaluating the text functions and the handlers\<close>

lemma digits_small: "n < 10 \<Longrightarrow> digits n = [digit_char n]"
  by (subst digits.simps) simp

lemma digits_big: "10 \<le> n \<Longrightarrow> digits n = digits (n div 10) @ [digit_char (n mod 10)]"
  by (subst digits.simps) simp

lemmas text_defs =
  parseFloat_def is_space_def is_digit_def nat_of_digits_def digit_val_def
  exponent_part_def scale10_def digits_small digits_big digit_char_def
  parseInt_def is_hex_digit_def hex_val_def nat_of_hex_def

lemmas run_defs =
  init_def loadLayout_def initialLayoutData_def resetHabitat_def globals_def addZone_def
  showFeedback_def vec_def onPointerDown_def onPointerUp_def onPointerMove_def
  isValidPlacement_def withinBoundary_def distanceFromCenter_def distanceTo_def
  animateZoneToPosition_def animate.simps lerpVectors_def set_position_def jsub_def
  snap_point_def gridSize_def page_form_def blank_panel_def two_zones_def
  dragging_first_def started_def Let_def

lemma sqrt_lt: "0 \<le> b \<Longrightarrow> sqrt a < b \<longleftrightarrow> a < b\<^sup>2"
  by (metis real_sqrt_less_iff real_sqrt_abs abs_of_nonneg)

lemma sqrt_lt2: "0 \<le> b \<Longrightarrow> sqrt a * 2 < b \<longleftrightarrow> 4 * a < b\<^sup>2"
proof -
  assume b: "0 \<le> b"
  have "sqrt a * 2 < b \<longleftrightarrow> a < (b / 2)\<^sup>2"
    using sqrt_lt[of "b / 2" a] b by simp
  also have "\<dots> \<longleftrightarrow> 4 * a < b\<^sup>2" by (simp add: power_divide field_simps)
  finally show ?thesis .
qed

lemma feedback_showFeedback [simp]: "feedback (showFeedback m v s) = Some (m, v)"
  by (simp add: showFeedback_def)

lemma mesh_showFeedback [simp]: "mesh (showFeedback m v s) = mesh s"
  by (simp add: showFeedback_def)

lemma position_set_position [simp]: "position (mesh (set_position z p s) z) = p"
  by (simp add: set_position_def)

section \<open>The checks of a drag\<close>

lemma distanceFromCenter_real:
  "distanceFromCenter \<lparr> vx = Num x, vy = y, vz = Num z \<rparr> = Num (sqrt (x\<^sup>2 + z\<^sup>2))"
  by (simp add: distanceFromCenter_def not_less power2_eq_square)

lemma withinBoundary_real:
  "withinBoundary (Num r) \<lparr> vx = Num x, vy = y, vz = Num z \<rparr> \<longleftrightarrow> sqrt (x\<^sup>2 + z\<^sup>2) < r - 3 / 2"
  by (simp add: withinBoundary_def distanceFromCenter_real jsub_def)

lemma hasCollision_iff:
  "hasCollision m sel zs \<longleftrightarrow>
     (\<exists>z \<in> set zs. z \<noteq> sel \<and> jless (distanceTo (position (m sel)) (position (m z))) (Num (5 / 2)))"
  by (induction zs) auto

lemma snap_point_real:
  "snap_point True \<lparr> vx = Num x, vy = y, vz = Num z \<rparr>
     = \<lparr> vx = Num (of_int \<lfloor>x + 1 / 2\<rfloor>), vy = y, vz = Num (of_int \<lfloor>z + 1 / 2\<rfloor>) \<rparr>"
  by (simp add: snap_point_def gridSize_def)

lemma onPointerMove_drag:
  assumes "selectedZone s = Some sel" "isDragging s"
  shows "onPointerMove (Some hit) s =
     (let point = snap_point (snapToGrid s) hit;
          ok = withinBoundary (radius (controls s)) point;
          collision = hasCollision (mesh s) sel (zones s)
      in showFeedback
           (if ok \<and> \<not> collision then ''Valid placement''
            else if collision then ''Too close to another zone''
            else ''Outside habitat boundary'')
           (ok \<and> \<not> collision)
           (set_position sel \<lparr> vx = vx point, vy = Num 1, vz = vz point \<rparr> s))"
  using assms by (simp add: onPointerMove_def Let_def)

lemma distanceTo_real:
  "distanceTo (vec a b c) (vec a' b' c') = Num (sqrt ((a - a')\<^sup>2 + (b - b')\<^sup>2 + (c - c')\<^sup>2))"
  by (simp add: distanceTo_def vec_def jsub_def Let_def power2_eq_square not_less add_nonneg_nonneg)

lemma onPointerUp_drag:
  assumes "selectedZone s = Some sel" "isDragging s"
  shows "feedback (onPointerUp e l s) =
     (if isValidPlacement s sel then Some (''Zone positioned successfully'', True)
      else Some (''Invalid placement - zone returned to original position'', False))"
proof -
  have "isValidPlacement (s\<lparr> controls_enabled := True, isDragging := False \<rparr>) sel = isValidPlacement s sel"
    by (simp add: isValidPlacement_def)
  with assms show ?thesis by (simp add: onPointerUp_def Let_def)
qed

lemma onPointerUp_accepts_iff:
  assumes "selectedZone s = Some sel" "isDragging s" "radius (controls s) = Num r"
    and "position (mesh s sel) = \<lparr> vx = Num x, vy = y, vz = Num z \<rparr>"
  shows "feedback (onPointerUp e l s) = Some (''Zone positioned successfully'', True)
     \<longleftrightarrow> sqrt (x\<^sup>2 + z\<^sup>2) < r - 3 / 2
        \<and> \<not> (\<exists>other \<in> set (zones s). other \<noteq> sel
               \<and> jless (distanceTo (position (mesh s sel)) (position (mesh s other))) (Num (5 / 2)))"
  using assms by (simp add: onPointerUp_drag isValidPlacement_def withinBoundary_real hasCollision_iff)




text \<open>
  C2 at the failing input: zones at \<open>(0, 1, 0)\<close> and \<open>(5, 1, 0)\<close>, radius 10, the first one
  dragged to the floor point \<open>(4, 0, 0)\<close>. \<open>onPointerMove\<close> reports "Valid placement" and
  puts the zone at \<open>(4, 1, 0)\<close>, at distance 1 from the other zone: its collision loop
  has measured from the position the zone had before the move.
\<close>

theorem C2_stale_collision_check:
  "feedback (onPointerMove (Some (vec 4 0 0)) (dragging_first (vec 0 1 0) (vec 5 1 0)))
     = Some (''Valid placement'', True)
   \<and> position (mesh (onPointerMove (Some (vec 4 0 0)) (dragging_first (vec 0 1 0) (vec 5 1 0))) 0)
       = vec 4 1 0
   \<and> position (mesh (onPointerMove (Some (vec 4 0 0)) (dragging_first (vec 0 1 0) (vec 5 1 0))) 1)
       = vec 5 1 0
   \<and> distanceTo (vec 4 1 0) (vec 5 1 0) = Num 1"
  by (simp add: run_defs sqrt_lt sqrt_lt2)

section \<open>The animation back to the start of a drag\<close>

lemma lerp_one: "lerpVectors (vec a b c) (vec a' b' c') (Num 1) = vec a' b' c'"
  by (simp add: lerpVectors_def vec_def jsub_def)

lemma ease_one: "jsub (Num 1) (Math_pow (jsub (Num 1) (Num 1)) 3) = Num 1"
  by (simp add: jsub_def numeral_3_eq_3)

lemma progress_done: "0 < d \<Longrightarrow> d \<le> e \<Longrightarrow> Math_min (jdiv (Num e) (Num d)) (Num 1) = Num 1"
  by (auto simp add: field_simps)

lemma progress_running:
  "0 < d \<Longrightarrow> e < d \<Longrightarrow> jless (Math_min (jdiv (Num e) (Num d)) (Num 1)) (Num 1)"
  by (auto simp add: field_simps)

lemma animate_reaches_target:
  assumes "0 < d" and "\<exists>e \<in> set (elapsed # later). d \<le> e"
  shows "position (mesh (animate z (vec a b c) (vec a' b' c') (Num d) elapsed later s) z)
           = vec a' b' c'"
  using assms(2)
proof (induction later arbitrary: elapsed s)
  case Nil
  then have "d \<le> elapsed" by simp
  with assms(1) show ?case
    by (subst animate.simps) (simp add: Let_def progress_done ease_one lerp_one)
next
  case (Cons e es)
  show ?case
  proof (cases "d \<le> elapsed")
    case True
    with assms(1) show ?thesis
      by (subst animate.simps) (simp add: Let_def progress_done ease_one lerp_one)
  next
    case False
    then have run: "jless (Math_min (jdiv (Num elapsed) (Num d)) (Num 1)) (Num 1)"
      using assms(1) by (intro progress_running) simp_all
    from False Cons.prems have "\<exists>x \<in> set (e # es). d \<le> x" by auto
    from Cons.IH[OF this] run show ?thesis
      by (subst animate.simps) (simp add: Let_def)
  qed
qed

lemma duration_real:
  assumes "(a, b, c) \<noteq> (a', b', c')"
  shows "\<exists>d. 0 < d \<and> d \<le> 1000
     \<and> Math_min (jmul (distanceTo (vec a b c) (vec a' b' c')) (Num 200)) (Num 1000) = Num d"
proof -
  let ?q = "(a - a')\<^sup>2 + (b - b')\<^sup>2 + (c - c')\<^sup>2"
  have "0 < ?q"
  proof -
    have "a \<noteq> a' \<or> b \<noteq> b' \<or> c \<noteq> c'" using assms by auto
    then have "0 < (a - a')\<^sup>2 \<or> 0 < (b - b')\<^sup>2 \<or> 0 < (c - c')\<^sup>2" by auto
    moreover have "0 \<le> (a - a')\<^sup>2" "0 \<le> (b - b')\<^sup>2" "0 \<le> (c - c')\<^sup>2" by simp_all
    ultimately show ?thesis by linarith
  qed
  then have "0 < sqrt ?q * 200" by simp
  then show ?thesis
    by (cases "1000 < sqrt ?q * 200") (auto simp add: distanceTo_real)
qed

lemma animateZoneToPosition_reverts:
  assumes "position (mesh s z) = vec a b c" and "(a, b, c) \<noteq> (a', b', c')"
    and "\<exists>e \<in> set (elapsed # later). 1000 \<le> e"
  shows "position (mesh (animateZoneToPosition z (vec a' b' c') elapsed later s) z) = vec a' b' c'"
proof -
  obtain d where d: "0 < d" "d \<le> 1000"
    "Math_min (jmul (distanceTo (vec a b c) (vec a' b' c')) (Num 200)) (Num 1000) = Num d"
    using duration_real[OF assms(2)] by blast
  from assms(3) d(2) have "\<exists>e \<in> set (elapsed # later). d \<le> e"
    by (meson order_trans)
  from animate_reaches_target[OF d(1) this] show ?thesis
    by (simp add: animateZoneToPosition_def Let_def assms(1) d(3))
qed

lemma onPointerUp_reverts:
  assumes "selectedZone s = Some sel" and "isDragging s" and "\<not> isValidPlacement s sel"
    and "position (mesh s sel) = vec a b c" and "dragStartPosition s = vec a' b' c'"
    and "(a, b, c) \<noteq> (a', b', c')" and "\<exists>e \<in> set (elapsed # later). 1000 \<le> e"
  shows "position (mesh (onPointerUp elapsed later s) sel) = dragStartPosition s"
proof -
  let ?s1 = "s\<lparr> controls_enabled := True, isDragging := False \<rparr>"
  have inv: "\<not> isValidPlacement ?s1 sel"
    using assms(3) by (simp add: isValidPlacement_def)
  have pos: "position (mesh ?s1 sel) = vec a b c"
    using assms(4) by simp
  from animateZoneToPosition_reverts [OF pos assms(6,7)] inv assms(1,2,5) show ?thesis
    by (simp add: onPointerUp_def Let_def)
qed

text \<open>
  C3 at the failing input: in the editor as \<open>init\<close> leaves it, the pointer goes down on
  the storage zone (reference 2, at \<open>(6.64, 1, -7.05)\<close>, outside the boundary of radius 10)
  and up again without a move, and the clock shows no time passed at the first run of
  \<open>animate\<close>. The placement is invalid, the way back has length 0, the duration is 0,
  \<open>0 / 0\<close> is NaN, and the zone ends at \<open>(NaN, NaN, NaN)\<close> instead of where it was.
\<close>

theorem C3_revert_without_move:
  "position (mesh started 2) = vec (664 / 100) 1 (- (705 / 100))
   \<and> feedback (onPointerUp 0 [] (onPointerDown 0 False (Some 2) started))
       = Some (''Invalid placement - zone returned to original position'', False)
   \<and> position (mesh (onPointerUp 0 [] (onPointerDown 0 False (Some 2) started)) 2)
       = \<lparr> vx = NaN, vy = NaN, vz = NaN \<rparr>"
  by (simp add: run_defs text_defs numeral_3_eq_3 sqrt_lt2)

text \<open>
  C10: while a zone is dragged with grid snapping on, \<open>onPointerMove\<close> puts it at the floor
  point with \<open>x\<close> and \<open>z\<close> rounded to the nearest whole number (the grid of 1.0) and with
  \<open>y = 1\<close>; the boundary check that decides the validity flag of the feedback is made on
  the rounded point; and grid snapping is on when the script starts.
\<close>

theorem C10_snap:
  assumes "selectedZone s = Some sel" and "isDragging s" and "snapToGrid s"
  shows "position (mesh (onPointerMove (Some \<lparr> vx = Num x, vy = y, vz = Num z \<rparr>) s) sel)
       = \<lparr> vx = Num (of_int \<lfloor>x + 1 / 2\<rfloor>), vy = Num 1, vz = Num (of_int \<lfloor>z + 1 / 2\<rfloor>) \<rparr>
    \<and> \<bar>of_int \<lfloor>x + 1 / 2\<rfloor> - x\<bar> \<le> 1 / 2 \<and> \<bar>of_int \<lfloor>z + 1 / 2\<rfloor> - z\<bar> \<le> 1 / 2
    \<and> (\<exists>msg. feedback (onPointerMove (Some \<lparr> vx = Num x, vy = y, vz = Num z \<rparr>) s)
         = Some (msg,
             withinBoundary (radius (controls s))
               \<lparr> vx = Num (of_int \<lfloor>x + 1 / 2\<rfloor>), vy = y, vz = Num (of_int \<lfloor>z + 1 / 2\<rfloor>) \<rparr>
             \<and> \<not> hasCollision (mesh s) sel (zones s)))
    \<and> snapToGrid (globals fm ed)"
proof -
  have nearest: "\<bar>of_int \<lfloor>a + 1 / 2\<rfloor> - a\<bar> \<le> 1 / 2" for a :: real
    by linarith
  show ?thesis
    using assms nearest[of x] nearest[of z]
    by (simp add: onPointerMove_drag Let_def snap_point_real globals_def)
qed

theorem C10_snap_witness:
  "selectedZone (dragging_first (vec 0 1 0) (vec 5 1 0)) = Some 0
   \<and> isDragging (dragging_first (vec 0 1 0) (vec 5 1 0))
   \<and> snapToGrid (dragging_first (vec 0 1 0) (vec 5 1 0))
   \<and> position (mesh (onPointerMove (Some \<lparr> vx = Num (36 / 10), vy = Num 0, vz = Num (- (5 / 2)) \<rparr>)
                       (dragging_first (vec 0 1 0) (vec 5 1 0))) 0)
       = \<lparr> vx = Num 4, vy = Num 1, vz = Num (- 2) \<rparr>"
proof -
  let ?s = "dragging_first (vec 0 1 0) (vec 5 1 0)"
  have h1: "selectedZone ?s = Some 0" by (simp add: run_defs)
  have h2: "isDragging ?s" by (simp add: run_defs)
  have h3: "snapToGrid ?s" by (simp add: run_defs)
  have fx: "\<lfloor>(36 / 10 :: real) + 1 / 2\<rfloor> = 4" by linarith
  have fz: "\<lfloor>- (5 / 2 :: real) + 1 / 2\<rfloor> = - 2" by simp
  from C10_snap [OF h1 h2 h3, of "36 / 10" "Num 0" "- (5 / 2)"] h1 h2 h3 fx fz show ?thesis
    by simp
qed

section \<open>A number printed by toFixed and read by parseFloat\<close>

lemma digit_cases: "d < 10 \<Longrightarrow> d \<in> {0, 1, 2, 3, 4, 5, 6, 7, 8, 9 :: nat}"
  by auto

lemma is_digit_digit_char: "d < 10 \<Longrightarrow> is_digit (digit_char d)"
  using digit_cases[of d] by (auto simp add: is_digit_def digit_char_def)

lemma digit_val_digit_char: "d < 10 \<Longrightarrow> digit_val (digit_char d) = d"
  using digit_cases[of d] by (auto simp add: digit_val_def digit_char_def)

lemma digits_all_digit: "\<forall>c \<in> set (digits n). is_digit c"
  by (induction n rule: digits.induct) (subst digits.simps, simp add: is_digit_digit_char)

lemma digits_not_empty: "digits n \<noteq> []"
  by (subst digits.simps) simp

lemma nat_of_digits_snoc: "nat_of_digits (cs @ [c]) = nat_of_digits cs * 10 + digit_val c"
  by (simp add: nat_of_digits_def)

lemma nat_of_digits_digits: "nat_of_digits (digits n) = n"
proof (induction n rule: digits.induct)
  case (1 n)
  show ?case
  proof (cases "n < 10")
    case True
    then show ?thesis
      by (subst digits.simps) (simp add: nat_of_digits_def digit_val_digit_char)
  next
    case False
    with 1 show ?thesis
      by (subst digits.simps) (simp add: nat_of_digits_snoc digit_val_digit_char)
  qed
qed

lemma nat_of_digits_append:
  "nat_of_digits (a @ b) = nat_of_digits a * 10 ^ length b + nat_of_digits b"
proof (induction b rule: rev_induct)
  case Nil
  then show ?case by (simp add: nat_of_digits_def)
next
  case (snoc c b)
  have "nat_of_digits (a @ b @ [c]) = nat_of_digits (a @ b) * 10 + digit_val c"
    using nat_of_digits_snoc[of "a @ b" c] by simp
  with snoc show ?case
    by (simp add: nat_of_digits_snoc algebra_simps)
qed

lemma nat_of_digits_zeros: "nat_of_digits (replicate k (CHR ''0'')) = 0"
proof (induction k)
  case 0
  show ?case by (simp add: nat_of_digits_def)
next
  case (Suc k)
  have "replicate (Suc k) (CHR ''0'') = replicate k (CHR ''0'') @ [CHR ''0'']"
    by (simp add: replicate_append_same)
  with Suc show ?case
    by (simp only: nat_of_digits_snoc) (simp add: digit_val_def)
qed

lemma is_digit_zero: "is_digit (CHR ''0'')"
  by (simp add: is_digit_def)

lemma padded_digits: "\<forall>c \<in> set (padded f n). is_digit c"
  using digits_all_digit[of n] by (auto simp add: padded_def is_digit_zero)

lemma padded_length: "f < length (padded f n)"
  by (auto simp add: padded_def)

lemma padded_value: "nat_of_digits (padded f n) = n"
  by (simp add: padded_def nat_of_digits_append nat_of_digits_zeros nat_of_digits_digits)

lemma toFixed_padded:
  "toFixed f (Num x) =
     (if x < 0 then ''-'' else []) @
     (if f = 0 then padded f (nat \<lfloor>\<bar>x\<bar> * 10 ^ f + 1 / 2\<rfloor>)
      else take (length (padded f (nat \<lfloor>\<bar>x\<bar> * 10 ^ f + 1 / 2\<rfloor>)) - f) (padded f (nat \<lfloor>\<bar>x\<bar> * 10 ^ f + 1 / 2\<rfloor>))
           @ ''.'' @ drop (length (padded f (nat \<lfloor>\<bar>x\<bar> * 10 ^ f + 1 / 2\<rfloor>)) - f) (padded f (nat \<lfloor>\<bar>x\<bar> * 10 ^ f + 1 / 2\<rfloor>)))"
  by (simp add: padded_def Let_def)

lemma takeWhile_digits: "\<forall>c \<in> set a. is_digit c \<Longrightarrow> \<not> is_digit d \<Longrightarrow> takeWhile is_digit (a @ d # r) = a"
  by (simp add: takeWhile_append2)

lemma dropWhile_digits: "\<forall>c \<in> set a. is_digit c \<Longrightarrow> \<not> is_digit d \<Longrightarrow> dropWhile is_digit (a @ d # r) = d # r"
  by (simp add: dropWhile_append2)

lemma takeWhile_all: "\<forall>c \<in> set b. is_digit c \<Longrightarrow> takeWhile is_digit b = b"
  by (simp add: takeWhile_eq_all_conv)

lemma dropWhile_all: "\<forall>c \<in> set b. is_digit c \<Longrightarrow> dropWhile is_digit b = []"
  by simp

lemma digit_not_space: "is_digit c \<Longrightarrow> \<not> is_space c"
  by (auto simp add: is_digit_def is_space_def)

lemma digit_not_sign: "is_digit c \<Longrightarrow> c \<noteq> CHR ''-'' \<and> c \<noteq> CHR ''+'' \<and> c \<noteq> CHR ''I''"
  by (auto simp add: is_digit_def)

lemma parseFloat_decimal:
  assumes a: "\<forall>c \<in> set a. is_digit c" and b: "\<forall>c \<in> set b. is_digit c" and ne: "a \<noteq> []"
  shows "parseFloat ((if neg then ''-'' else []) @ a @ ''.'' @ b)
     = Num (if neg then - (real (nat_of_digits a) + real (nat_of_digits b) / 10 ^ length b)
            else real (nat_of_digits a) + real (nat_of_digits b) / 10 ^ length b)"
proof -
  obtain c cs where acs: "a = c # cs" using ne by (cases a) auto
  then have c: "is_digit c" using a by simp
  have nd: "\<not> is_digit (CHR ''.'')" by (simp add: is_digit_def)
  have tw: "takeWhile is_digit (a @ CHR ''.'' # b) = a"
    using a nd by (rule takeWhile_digits)
  have dw: "dropWhile is_digit (a @ CHR ''.'' # b) = CHR ''.'' # b"
    using a nd by (rule dropWhile_digits)
  have inf: "take 8 (a @ CHR ''.'' # b) \<noteq> ''Infinity''"
    using digit_not_sign[OF c] by (simp add: acs)
  have sp: "\<not> is_space (CHR ''-'')" by (simp add: is_space_def)
  show ?thesis
  proof (cases neg)
    case True
    then show ?thesis
      using tw dw inf sp ne
      by (simp add: parseFloat_def Let_def takeWhile_all[OF b] dropWhile_all[OF b]
            exponent_part_def scale10_def)
  next
    case False
    have t: "dropWhile is_space (a @ CHR ''.'' # b) = a @ CHR ''.'' # b"
      using digit_not_space[OF c] by (simp add: acs)
    have hd: "hd (a @ CHR ''.'' # b) = c" by (simp add: acs)
    from False show ?thesis
      using tw dw inf ne digit_not_sign[OF c]
      by (simp add: parseFloat_def Let_def t hd takeWhile_all[OF b] dropWhile_all[OF b]
            exponent_part_def scale10_def)
  qed
qed

lemma parseFloat_toFixed2: "parseFloat (toFixed 2 v) = round2 v"
proof (cases v)
  case (Num x)
  let ?n = "nat \<lfloor>\<bar>x\<bar> * 10 ^ 2 + 1 / 2\<rfloor>"
  let ?m = "padded 2 ?n"
  let ?a = "take (length ?m - 2) ?m"
  let ?b = "drop (length ?m - 2) ?m"
  have len: "2 < length ?m" by (rule padded_length)
  have a: "\<forall>c \<in> set ?a. is_digit c"
    using padded_digits[of 2 ?n] by (meson in_set_takeD)
  have b: "\<forall>c \<in> set ?b. is_digit c"
    using padded_digits[of 2 ?n] by (meson in_set_dropD)
  have mne: "?m \<noteq> []" using len by auto
  have ne: "?a \<noteq> []" using len mne by simp
  have lb: "length ?b = 2" using len by simp
  have "nat_of_digits (?a @ ?b) = ?n" by (simp add: padded_value)
  then have val: "nat_of_digits ?a * 100 + nat_of_digits ?b = ?n"
    by (simp only: nat_of_digits_append lb) simp
  have nn: "0 \<le> \<lfloor>\<bar>x\<bar> * 10 ^ 2 + 1 / 2\<rfloor>" by simp
  have "real (nat_of_digits ?a) + real (nat_of_digits ?b) / 10 ^ length ?b
      = real (nat_of_digits ?a * 100 + nat_of_digits ?b) / 100"
    by (simp only: lb) simp
  also have "\<dots> = real ?n / 100"
    by (simp only: val)
  also have "\<dots> = of_int \<lfloor>\<bar>x\<bar> * 100 + 1 / 2\<rfloor> / 100"
    using nn by simp
  finally have v: "real (nat_of_digits ?a) + real (nat_of_digits ?b) / 10 ^ length ?b
      = of_int \<lfloor>\<bar>x\<bar> * 100 + 1 / 2\<rfloor> / 100" .
  have tf: "toFixed 2 (Num x) = (if x < 0 then ''-'' else []) @ ?a @ ''.'' @ ?b"
    by (simp only: toFixed_padded) simp
  have "parseFloat (toFixed 2 (Num x)) = parseFloat ((if x < 0 then ''-'' else []) @ ?a @ ''.'' @ ?b)"
    by (simp only: tf)
  also have "\<dots> = Num (if x < 0
        then - (real (nat_of_digits ?a) + real (nat_of_digits ?b) / 10 ^ length ?b)
        else real (nat_of_digits ?a) + real (nat_of_digits ?b) / 10 ^ length ?b)"
    by (rule parseFloat_decimal[OF a b ne])
  also have "\<dots> = Num (if x < 0 then - (of_int \<lfloor>\<bar>x\<bar> * 100 + 1 / 2\<rfloor> / 100)
             else of_int \<lfloor>\<bar>x\<bar> * 100 + 1 / 2\<rfloor> / 100)"
    by (simp only: v)
  finally have "parseFloat (toFixed 2 (Num x)) = round2 (Num x)"
    by (simp only: round2.simps)
  with Num show ?thesis by (simp only:)
next
  case PosInf
  then show ?thesis by (simp add: text_defs)
next
  case NegInf
  then show ?thesis by (simp add: text_defs)
next
  case NaN
  then show ?thesis by (simp add: text_defs)
qed

section \<open>Loading a document\<close>

lemma zone_fields_step:
  assumes "zone_fields zd = Some f"
  shows "load_zones (zd # rest) s = load_zones rest (add_loaded s f)"
  using assms
  by (auto simp add: zone_fields_def add_loaded_def
        split: jsval.splits option.splits prod.splits)

lemma load_zones_fields:
  "those (map zone_fields zs) = Some fs \<Longrightarrow> load_zones zs s = Inr (foldl add_loaded s fs)"
proof (induction zs arbitrary: s fs)
  case Nil
  then show ?case by simp
next
  case (Cons zd zs)
  then obtain f fs' where f: "zone_fields zd = Some f" and fs': "those (map zone_fields zs) = Some fs'"
    and fs: "fs = f # fs'"
    by (auto split: option.splits)
  from Cons.IH[OF fs'] show ?case
    by (simp only: zone_fields_step[OF f] fs foldl_Cons)
qed

lemma add_loaded_simps [simp]:
  "zones (add_loaded s f) = zones s @ [next_id s]"
  "next_id (add_loaded s f) = Suc (next_id s)"
  "controls (add_loaded s f) = controls s"
  "feedback (add_loaded s f) = feedback s"
  "mesh (add_loaded s f) = (mesh s)(next_id s := loaded_zone f)"
  by (cases f; simp add: add_loaded_def addZone_def loaded_zone_def Let_def)+

lemma foldl_add_loaded:
  "zones (foldl add_loaded s fs) = zones s @ [next_id s ..< next_id s + length fs]
   \<and> next_id (foldl add_loaded s fs) = next_id s + length fs
   \<and> controls (foldl add_loaded s fs) = controls s
   \<and> (\<forall>i < length fs. mesh (foldl add_loaded s fs) (next_id s + i) = loaded_zone (fs ! i))
   \<and> (\<forall>r < next_id s. mesh (foldl add_loaded s fs) r = mesh s r)"
proof (induction fs rule: rev_induct)
  case Nil
  show ?case by simp
next
  case (snoc f fs)
  then show ?case
    by (auto simp add: nth_append less_Suc_eq)
qed


lemma loadLayout_fields:
  assumes "habitat_fields layout = Some (shp, r, h, c)" and "zones_fields layout = Some fs"
  shows "loadLayout layout s =
     Inr (showFeedback ''Layout loaded!'' True
            (foldl add_loaded
               ((resetHabitat s)\<lparr> controls := \<lparr> shape = shp, radius = Num r, height = Num h,
                                                crew = Number (Num c) \<rparr> \<rparr>) fs))"
proof -
  from assms(1) obtain kvs hk where layout: "layout = Obj kvs"
    and hab: "map_of kvs ''habitat'' = Some (Obj hk)"
    and f: "map_of hk ''shape'' = Some (Str shp)" "map_of hk ''radius'' = Some (Number (Num r))"
      "map_of hk ''height'' = Some (Number (Num h))" "map_of hk ''crew'' = Some (Number (Num c))"
    by (auto simp add: habitat_fields_def split: jsval.splits option.splits jsnum.splits)
  from assms(2) layout obtain zs where zs: "map_of kvs ''zones'' = Some (Arr zs)"
    and those: "those (map zone_fields zs) = Some fs"
    by (auto simp add: zones_fields_def split: jsval.splits option.splits)
  show ?thesis
    by (simp add: loadLayout_def Let_def layout hab f zs load_zones_fields[OF those])
qed

lemma outcome_simps [simp]: "outcome (Inl (e, s)) = s" "outcome (Inr s) = s"
  by (simp_all add: outcome_def)

lemma load_zones_outcome:
  "zones (outcome (load_zones zs s)) = zones s @ [next_id s ..< next_id (outcome (load_zones zs s))]
   \<and> next_id s \<le> next_id (outcome (load_zones zs s))"
proof (induction zs arbitrary: s)
  case Nil
  show ?case by simp
next
  case (Cons zd zs)
  show ?case
  proof (cases "\<exists>ty p. load_zones (zd # zs) s = load_zones zs (addZone ty (At p) s)")
    case True
    then obtain ty p where step: "load_zones (zd # zs) s = load_zones zs (addZone ty (At p) s)"
      by blast
    let ?s1 = "addZone ty (At p) s"
    have s1: "zones ?s1 = zones s @ [next_id s]" "next_id ?s1 = Suc (next_id s)"
      by (simp_all add: addZone_def Let_def)
    from Cons.IH[of ?s1] have ih: "zones (outcome (load_zones zs ?s1))
        = (zones s @ [next_id s]) @ [Suc (next_id s) ..< next_id (outcome (load_zones zs ?s1))]"
      and le: "Suc (next_id s) \<le> next_id (outcome (load_zones zs ?s1))"
      by (simp_all add: s1)
    from le have "[next_id s ..< next_id (outcome (load_zones zs ?s1))]
        = next_id s # [Suc (next_id s) ..< next_id (outcome (load_zones zs ?s1))]"
      by (simp add: upt_conv_Cons)
    with ih le show ?thesis by (simp only: step) simp
  next
    case False
    then have "outcome (load_zones (zd # zs) s) = s"
      by (auto split: sum.splits)
    then show ?thesis by simp
  qed
qed

lemma load_zones_Inl:
  "load_zones zs s = Inl (e, b) \<Longrightarrow> zones b = zones s @ [next_id s ..< next_id b]"
  using load_zones_outcome[of zs s] by simp

lemma load_zones_Inr:
  "load_zones zs s = Inr b \<Longrightarrow> zones b = zones s @ [next_id s ..< next_id b]"
  using load_zones_outcome[of zs s] by simp

lemma loadLayout_outcome:
  "zones (outcome (loadLayout layout s))
     = [next_id s ..< next_id (outcome (loadLayout layout s))]"
  unfolding loadLayout_def Let_def resetHabitat_def
  by (auto split: sum.splits jsval.splits prod.splits simp add: showFeedback_def
        dest!: load_zones_Inl load_zones_Inr)

section \<open>Import\<close>

text \<open>
  C5: for a document in the format of the exported file (\<open>habitat_fields\<close> and
  \<open>zones_fields\<close> read it) the import succeeds and replaces the layout: the controls hold
  the habitat of the document, the zone list holds exactly one new zone per zone of the
  document, in the order of the document, each made by \<open>addZone\<close> from the type and the
  parsed position, and no earlier zone; a document with no zones leaves no zones.
\<close>

theorem C5_import_replaces:
  assumes "habitat_fields layout = Some (shp, r, h, c)" and "zones_fields layout = Some fs"
  shows "loadLayout layout s = Inr (import_onload (Some layout) s)
     \<and> controls (import_onload (Some layout) s)
         = \<lparr> shape = shp, radius = Num r, height = Num h, crew = Number (Num c) \<rparr>
     \<and> zones (import_onload (Some layout) s) = [next_id s ..< next_id s + length fs]
     \<and> (\<forall>i < length fs. mesh (import_onload (Some layout) s) (next_id s + i) = loaded_zone (fs ! i))
     \<and> (fs = [] \<longrightarrow> zones (import_onload (Some layout) s) = [])
     \<and> feedback (import_onload (Some layout) s) = Some (''Layout loaded!'', True)"
proof -
  let ?s0 = "(resetHabitat s)\<lparr> controls := \<lparr> shape = shp, radius = Num r, height = Num h,
                                                crew = Number (Num c) \<rparr> \<rparr>"
  let ?s1 = "foldl add_loaded ?s0 fs"
  have ld: "loadLayout layout s = Inr (showFeedback ''Layout loaded!'' True ?s1)"
    by (rule loadLayout_fields[OF assms])
  then have imp: "import_onload (Some layout) s = showFeedback ''Layout loaded!'' True ?s1"
    by (simp add: import_onload_def)
  have base: "zones ?s0 = []" "next_id ?s0 = next_id s"
    by (simp_all add: resetHabitat_def)
  from foldl_add_loaded[of ?s0 fs] base
  have z: "zones ?s1 = [next_id s ..< next_id s + length fs]"
    and c: "controls ?s1 = \<lparr> shape = shp, radius = Num r, height = Num h, crew = Number (Num c) \<rparr>"
    and m: "\<forall>i < length fs. mesh ?s1 (next_id s + i) = loaded_zone (fs ! i)"
    by simp_all
  show ?thesis
    unfolding imp using ld z c m by (simp add: showFeedback_def resetHabitat_def)
qed

theorem C5_import_replaces_witness:
  "habitat_fields empty_layout = Some (''cylinder'', 12, 20, 6)
   \<and> zones_fields empty_layout = Some []
   \<and> zones (two_zones (vec 0 1 0) (vec 5 1 0)) = [0, 1]
   \<and> zones (import_onload (Some empty_layout) (two_zones (vec 0 1 0) (vec 5 1 0))) = []
   \<and> controls (import_onload (Some empty_layout) (two_zones (vec 0 1 0) (vec 5 1 0)))
       = \<lparr> shape = ''cylinder'', radius = Num 12, height = Num 20, crew = Number (Num 6) \<rparr>"
proof -
  have h1: "habitat_fields empty_layout = Some (''cylinder'', 12, 20, 6)"
    by (simp add: habitat_fields_def empty_layout_def)
  have h2: "zones_fields empty_layout = Some []"
    by (simp add: zones_fields_def empty_layout_def)
  have z: "zones (two_zones (vec 0 1 0) (vec 5 1 0)) = [0, 1]"
    by (simp add: run_defs)
  from C5_import_replaces [OF h1 h2, of "two_zones (vec 0 1 0) (vec 5 1 0)"] h1 h2 z
  show ?thesis by simp
qed

text \<open>
  C6, as stated, fails: with two zones in the editor, the import of the document \<open>{}\<close>
  raises a TypeError in \<open>loadLayout\<close>, the failure is reported, and the zone list is empty
  afterwards: the zones of the layout before the import are lost.
\<close>

theorem C6_counterexample:
  "zones (two_zones (vec 0 1 0) (vec 5 1 0)) = [0, 1]
   \<and> loadLayout (Obj []) (two_zones (vec 0 1 0) (vec 5 1 0))
       = Inl (TypeError, resetHabitat (two_zones (vec 0 1 0) (vec 5 1 0)))
   \<and> feedback (import_onload (Some (Obj [])) (two_zones (vec 0 1 0) (vec 5 1 0)))
       = Some (''Invalid JSON file!'', False)
   \<and> zones (import_onload (Some (Obj [])) (two_zones (vec 0 1 0) (vec 5 1 0))) = []"
  by (simp add: import_onload_def run_defs)

text \<open>
  C6, amended: when the file is not valid JSON, the failure is reported and nothing but
  the feedback changes. When \<open>loadLayout\<close> raises on a document, the failure is reported in
  the same way, and the zone list then holds only zones made during this import (those
  added from the document before the exception), none of the zones it held before.
\<close>

theorem C6_failed_import:
  "import_onload None s = s\<lparr> feedback := Some (''Invalid JSON file!'', False) \<rparr>
   \<and> (loadLayout layout s = Inl (e, s1) \<longrightarrow>
        feedback (import_onload (Some layout) s) = Some (''Invalid JSON file!'', False)
        \<and> zones (import_onload (Some layout) s) = [next_id s ..< next_id s1]
        \<and> (\<forall>z \<in> set (zones (import_onload (Some layout) s)). next_id s \<le> z))"
proof -
  have "zones s1 = [next_id s ..< next_id s1]" if "loadLayout layout s = Inl (e, s1)"
    using loadLayout_outcome[of layout s] that by simp
  then show ?thesis
    by (auto simp add: import_onload_def showFeedback_def)
qed

theorem C6_failed_import_witness:
  "loadLayout broken_layout (two_zones (vec 0 1 0) (vec 5 1 0))
     = Inl (TypeError, outcome (loadLayout broken_layout (two_zones (vec 0 1 0) (vec 5 1 0))))
   \<and> next_id (two_zones (vec 0 1 0) (vec 5 1 0)) = 2
   \<and> feedback (import_onload (Some broken_layout) (two_zones (vec 0 1 0) (vec 5 1 0)))
       = Some (''Invalid JSON file!'', False)
   \<and> zones (import_onload (Some broken_layout) (two_zones (vec 0 1 0) (vec 5 1 0))) = [2]"
proof -
  let ?s = "two_zones (vec 0 1 0) (vec 5 1 0)"
  have h: "loadLayout broken_layout ?s = Inl (TypeError, outcome (loadLayout broken_layout ?s))"
    by (simp add: broken_layout_def run_defs)
  have n: "next_id ?s = 2"
    by (simp add: run_defs)
  have n1: "next_id (outcome (loadLayout broken_layout ?s)) = 3"
    by (simp add: broken_layout_def run_defs)
  have u: "[2 ..< 3] = [2 :: nat]"
    by (simp add: upt_rec)
  from C6_failed_import [of ?s broken_layout TypeError "outcome (loadLayout broken_layout ?s)"]
    h n n1 u
  show ?thesis by simp
qed

section \<open>Edits outside a drag\<close>

text \<open>
  C8, as stated, fails: with the zone editor open on the zone at \<open>(0, 1, 0)\<close> in a
  habitat of radius 10, typing 100 into the x field of the panel puts the zone at
  \<open>(100, 1, 0)\<close>, a position that the placement check rejects.
\<close>

lemmas panel_defs =
  editing_first_def openZoneEditor_def populateZoneEditor_def updateZonePosition_def
  updateZoneRotation_def updateZoneScale_def updateZoneDimensions_def applyZoneChanges_def
  resetZoneToDefaults_def zone_pos_input_def zone_scale_input_def duplicateZone_def
  vec_add_def Math_PI_def

theorem C8_counterexample:
  "currentEditingZone editing_first = Some 0
   \<and> radius (controls (zone_pos_input X ''100'' editing_first)) = Num 10
   \<and> position (mesh (zone_pos_input X ''100'' editing_first) 0) = vec 100 1 0
   \<and> \<not> isValidPlacement (zone_pos_input X ''100'' editing_first) 0"
  by (simp add: panel_defs run_defs text_defs sqrt_lt sqrt_lt2)

lemma parseFloat_toFixed1_zero: "parseFloat (toFixed (Suc 0) (Num 0)) = Num 0"
proof -
  have "parseFloat (toFixed 1 (Num 0)) = Num 0" by (simp add: text_defs)
  then show ?thesis by (simp only: One_nat_def)
qed

lemma parseFloat_toFixed1_one: "parseFloat (toFixed (Suc 0) (Num 1)) = Num 1"
proof -
  have "parseFloat (toFixed 1 (Num 1)) = Num 1" by (simp add: text_defs)
  then show ?thesis by (simp only: One_nat_def)
qed

text \<open>
  C8, amended: the placement check gates the end of a drag only. \<open>onPointerUp\<close> leaves
  the meshes as they are when the dragged zone passes the check. Every other write of a
  position is made without the check: \<open>onPointerMove\<close> puts the dragged zone at each
  (snapped) floor point with \<open>y = 1\<close>, \<open>updateZonePosition\<close> puts the edited zone at the
  numbers of the three position fields, and \<open>resetZoneToDefaults\<close> puts it at \<open>(0, 1, 0)\<close>.
\<close>

theorem C8_unvalidated_writes:
  "(selectedZone s = Some sel \<longrightarrow> isDragging s \<longrightarrow>
      position (mesh (onPointerMove (Some hit) s) sel)
        = \<lparr> vx = vx (snap_point (snapToGrid s) hit), vy = Num 1,
            vz = vz (snap_point (snapToGrid s) hit) \<rparr>)
   \<and> (currentEditingZone s = Some z \<longrightarrow>
        position (mesh (updateZonePosition s) z)
          = \<lparr> vx = zone_pos_x (panel s), vy = zone_pos_y (panel s), vz = zone_pos_z (panel s) \<rparr>)
   \<and> (currentEditingZone s = Some z \<longrightarrow>
        position (mesh (resetZoneToDefaults s) z) = vec 0 1 0)
   \<and> (selectedZone s = Some sel \<longrightarrow> isDragging s \<longrightarrow> isValidPlacement s sel \<longrightarrow>
        mesh (onPointerUp e l s) = mesh s)"
proof -
  have move: "selectedZone s = Some sel \<longrightarrow> isDragging s \<longrightarrow>
      position (mesh (onPointerMove (Some hit) s) sel)
        = \<lparr> vx = vx (snap_point (snapToGrid s) hit), vy = Num 1,
            vz = vz (snap_point (snapToGrid s) hit) \<rparr>"
    by (simp add: onPointerMove_drag Let_def)
  have upd: "currentEditingZone s = Some z \<longrightarrow>
        position (mesh (updateZonePosition s) z)
          = \<lparr> vx = zone_pos_x (panel s), vy = zone_pos_y (panel s), vz = zone_pos_z (panel s) \<rparr>"
    by (simp add: updateZonePosition_def)
  have reset: "currentEditingZone s = Some z \<longrightarrow>
        position (mesh (resetZoneToDefaults s) z) = vec 0 1 0"
    by (simp add: resetZoneToDefaults_def applyZoneChanges_def updateZoneDimensions_def
          updateZoneScale_def updateZoneRotation_def updateZonePosition_def
          populateZoneEditor_def set_position_def Let_def
          parseFloat_toFixed1_zero parseFloat_toFixed1_one vec_def del: toFixed.simps)
  have up: "selectedZone s = Some sel \<longrightarrow> isDragging s \<longrightarrow> isValidPlacement s sel \<longrightarrow>
        mesh (onPointerUp e l s) = mesh s"
  proof -
    have "isValidPlacement (s\<lparr> controls_enabled := True, isDragging := False \<rparr>) sel
        = isValidPlacement s sel"
      by (simp add: isValidPlacement_def)
    then show ?thesis by (simp add: onPointerUp_def Let_def)
  qed
  from move upd reset up show ?thesis by blast
qed

theorem C8_unvalidated_writes_witness:
  "selectedZone editing_and_dragging = Some 0
   \<and> isDragging editing_and_dragging
   \<and> currentEditingZone editing_and_dragging = Some 0
   \<and> isValidPlacement editing_and_dragging 0
   \<and> position (mesh (onPointerMove (Some (vec 40 0 0)) editing_and_dragging) 0) = vec 40 1 0
   \<and> position (mesh (resetZoneToDefaults editing_and_dragging) 0) = vec 0 1 0
   \<and> mesh (onPointerUp 0 [] editing_and_dragging) = mesh editing_and_dragging"
proof -
  have h1: "selectedZone editing_and_dragging = Some 0"
    by (simp add: editing_and_dragging_def panel_defs run_defs)
  have h2: "isDragging editing_and_dragging"
    by (simp add: editing_and_dragging_def panel_defs run_defs)
  have h3: "currentEditingZone editing_and_dragging = Some 0"
    by (simp add: editing_and_dragging_def panel_defs run_defs)
  have h4: "isValidPlacement editing_and_dragging 0"
    by (simp add: editing_and_dragging_def panel_defs run_defs sqrt_lt sqrt_lt2)
  have h5: "snapToGrid editing_and_dragging"
    by (simp add: editing_and_dragging_def panel_defs run_defs)
  have sn: "snap_point True (vec 40 0 0) = vec 40 0 0"
    by (simp add: snap_point_def gridSize_def vec_def)
  from C8_unvalidated_writes [of editing_and_dragging 0 "vec 40 0 0" 0 0 "[]"] h1 h2 h3 h4 h5 sn
  show ?thesis by (simp add: vec_def)
qed

section \<open>Duplicating a zone\<close>

text \<open>
  C9, as stated, fails: after the scale slider of the zone editor was set to 1.2 for the
  first zone, its duplicate has the scale 1 of every new zone, not the scale of its
  source.
\<close>

theorem C9_counterexample:
  "zones (zone_scale_input ''1.2'' editing_first) = [0, 1]
   \<and> scale (mesh (zone_scale_input ''1.2'' editing_first) 0) = vec (12 / 10) (12 / 10) (12 / 10)
   \<and> zones (duplicateZone 0 (zone_scale_input ''1.2'' editing_first)) = [0, 1, 2]
   \<and> scale (mesh (duplicateZone 0 (zone_scale_input ''1.2'' editing_first)) 2) = vec 1 1 1
   \<and> scale (mesh (duplicateZone 0 (zone_scale_input ''1.2'' editing_first)) 2)
       \<noteq> scale (mesh (zone_scale_input ''1.2'' editing_first) 0)"
  by (simp add: panel_defs run_defs text_defs)

text \<open>
  C9, amended: \<open>duplicateZone\<close> copies the type of its source and nothing else of it. The
  new zone is made by \<open>addZone\<close> at the position of the source moved by \<open>(3, 0, 0)\<close>, with
  no placement check, with the box of 2 by 2 by 2, the scale 1 and the rotation 0 of every
  new zone; the zone list grows by this one zone, and the source and every other mesh
  are unchanged.
\<close>

theorem C9_duplicate:
  assumes "z < next_id s"
  shows "zones (duplicateZone z s) = zones s @ [next_id s]
    \<and> length (zones (duplicateZone z s)) = length (zones s) + 1
    \<and> mesh (duplicateZone z s) (next_id s)
        = \<lparr> userData_type = userData_type (mesh s z),
            position = vec_add (position (mesh s z)) (vec 3 0 0),
            rotation = vec 0 0 0, scale = vec 1 1 1, originalDimensions = None,
            geometry = (Num 2, Num 2, Num 2) \<rparr>
    \<and> (position (mesh s z) = vec a b c \<longrightarrow>
         position (mesh (duplicateZone z s) (next_id s)) = vec (a + 3) b c)
    \<and> mesh (duplicateZone z s) z = mesh s z
    \<and> (\<forall>r. r \<noteq> next_id s \<longrightarrow> mesh (duplicateZone z s) r = mesh s r)"
  using assms
  by (auto simp add: duplicateZone_def addZone_def showFeedback_def Let_def vec_add_def vec_def)

theorem C9_duplicate_witness:
  "(0 :: nat) < next_id (two_zones (vec 0 1 0) (vec 5 1 0))
   \<and> zones (duplicateZone 0 (two_zones (vec 0 1 0) (vec 5 1 0))) = [0, 1, 2]
   \<and> position (mesh (duplicateZone 0 (two_zones (vec 0 1 0) (vec 5 1 0))) 2) = vec 3 1 0
   \<and> mesh (duplicateZone 0 (two_zones (vec 0 1 0) (vec 5 1 0))) 0
       = mesh (two_zones (vec 0 1 0) (vec 5 1 0)) 0"
proof -
  let ?s = "two_zones (vec 0 1 0) (vec 5 1 0)"
  have h: "0 < next_id ?s" by (simp add: run_defs)
  have n: "next_id ?s = 2" by (simp add: run_defs)
  have z: "zones ?s = [0, 1]" by (simp add: run_defs)
  have p: "position (mesh ?s 0) = vec 0 1 0" by (simp add: run_defs)
  from C9_duplicate [OF h, of 0 1 0] n z p show ?thesis by (simp add: vec_add_def vec_def)
qed


section \<open>What parseInt reads\<close>

lemma parseInt_examples:
  "parseInt ''8'' = Num 8 \<and> parseInt ''1e3'' = Num 1 \<and> parseInt ''1e-7'' = Num 1
   \<and> parseInt ''.5'' = NaN \<and> parseInt '' -42px'' = Num (- 42) \<and> parseInt ''0x1f'' = Num 31
   \<and> parseInt [] = NaN"
  by (simp add: parseInt_def is_space_def is_digit_def nat_of_digits_def digit_val_def
        is_hex_digit_def hex_val_def nat_of_hex_def)

lemma leading_digit_unit: "1 \<le> a \<Longrightarrow> a < 10 \<Longrightarrow> leading_digit a = \<lfloor>a\<rfloor>"
  by (subst leading_digit.simps) simp

lemma leading_digit_big: "10 \<le> a \<Longrightarrow> leading_digit a = leading_digit (a / 10)"
  by (subst leading_digit.simps) simp

lemma leading_digit_power: "leading_digit (10 ^ k) = 1"
proof (induction k)
  case 0
  show ?case by (simp add: leading_digit_unit)
next
  case (Suc k)
  have "(10 :: real) \<le> 10 ^ Suc k" by (simp add: self_le_power)
  then have "leading_digit (10 ^ Suc k) = leading_digit (10 ^ Suc k / 10)"
    by (rule leading_digit_big)
  with Suc show ?case by simp
qed

lemma parseInt_val_exponent_form: "parseInt_val (Number (Num (10 ^ 21))) = Num 1"
proof -
  have "\<not> \<bar>10 ^ 21 :: real\<bar> < 10 ^ 21" by simp
  moreover have "\<bar>10 ^ 21 :: real\<bar> = 10 ^ 21" by simp
  moreover have "(10 ^ 21 :: real) \<noteq> 0" "\<not> (10 ^ 21 :: real) < 0" by simp_all
  ultimately show ?thesis
    by (simp only: parseInt_val.simps leading_digit_power if_False simp_thms of_int_1)
qed

lemma parseInt_is_whole: "parseInt str = Num c \<Longrightarrow> c \<in> \<int>"
  by (auto simp add: parseInt_def Let_def split: if_splits)

lemma parseInt_val_is_whole: "parseInt_val v = Num c \<Longrightarrow> c \<in> \<int>"
proof (induction v rule: parseInt_val.induct)
  case (1 s)
  then show ?case by (simp add: parseInt_is_whole)
next
  case (2 x)
  then show ?case by (auto split: if_splits)
qed simp_all

lemma parseInt_val_whole_number:
  assumes "c \<in> \<int>" and "\<bar>c\<bar> < 10 ^ 21"
  shows "parseInt_val (Number (Num c)) = Num c"
proof (cases "c = 0")
  case True
  then show ?thesis by simp
next
  case False
  from assms(1) obtain k :: int where k: "c = of_int k" by (auto elim: Ints_cases)
  with False have "k \<noteq> 0" by simp
  then have "1 \<le> \<bar>k\<bar>" by simp
  then have "1 \<le> \<bar>c\<bar>" unfolding k by (metis of_int_1 of_int_abs of_int_le_iff)
  then have lo: "1 / 10 ^ 6 \<le> \<bar>c\<bar>" by simp
  have cut: "of_int (if c < 0 then \<lceil>c\<rceil> else \<lfloor>c\<rfloor>) = c" by (simp add: k)
  from False lo assms(2) cut show ?thesis by simp
qed

section \<open>Export and import\<close>

lemma JSON_elements_map: "JSON_elements vs = map JSON_roundtrip vs"
  by (induction vs) simp_all

lemma JSON_zone_document:
  "userData_type z = Str t \<Longrightarrow> JSON_roundtrip (zone_document z) = zone_document z"
  by (simp add: zone_document_def)

lemma zone_fields_zone_document:
  "zone_fields (zone_document z)
     = Some (userData_type z, toFixed 2 (vx (position z)), toFixed 2 (vy (position z)),
             toFixed 2 (vz (position z)))"
  by (simp add: zone_fields_def zone_document_def del: toFixed.simps)

lemma those_map_Some: "those (map (\<lambda>x. Some (g x)) xs) = Some (map g xs)"
  by (induction xs) simp_all

lemma loaded_zone_exported:
  "loaded_zone (userData_type z, toFixed 2 (vx (position z)), toFixed 2 (vy (position z)),
                toFixed 2 (vz (position z)))
     = \<lparr> userData_type = userData_type z,
         position = \<lparr> vx = round2 (vx (position z)), vy = round2 (vy (position z)),
                      vz = round2 (vz (position z)) \<rparr>,
         rotation = vec 0 0 0, scale = vec 1 1 1, originalDimensions = None,
         geometry = (Num 2, Num 2, Num 2) \<rparr>"
  by (simp only: loaded_zone_def prod.case parseFloat_toFixed2)

lemma reimport_fields:
  assumes "radius (controls s) = Num r" and "height (controls s) = Num h"
    and "parseInt_val (crew (controls s)) = Num c"
    and "\<And>z. z \<in> set (zones s) \<Longrightarrow> userData_type (mesh s z) = Str (tname z)"
  shows "reimport s =
     showFeedback ''Layout loaded!'' True
       (foldl add_loaded
          ((resetHabitat (snd (exportLayout s)))
             \<lparr> controls := \<lparr> shape = shape (controls s), radius = Num r, height = Num h,
                              crew = Number (Num c) \<rparr> \<rparr>)
          (map (\<lambda>z. (userData_type (mesh s z), toFixed 2 (vx (position (mesh s z))),
                      toFixed 2 (vy (position (mesh s z))), toFixed 2 (vz (position (mesh s z)))))
             (zones s)))"
proof -
  let ?g = "\<lambda>z. (userData_type (mesh s z), toFixed 2 (vx (position (mesh s z))),
                  toFixed 2 (vy (position (mesh s z))), toFixed 2 (vz (position (mesh s z))))"
  let ?fs = "map ?g (zones s)"
  let ?doc = "JSON_roundtrip (fst (exportLayout s))"
  let ?s2 = "snd (exportLayout s)"
  have zdocs: "map JSON_roundtrip (map (\<lambda>z. zone_document (mesh s z)) (zones s))
      = map (\<lambda>z. zone_document (mesh s z)) (zones s)"
    using assms(4) by (simp add: JSON_zone_document)
  have doc: "?doc =
      Obj [(''habitat'',
              Obj [(''shape'', Str (shape (controls s))), (''radius'', Number (Num r)),
                   (''height'', Number (Num h)), (''crew'', Number (Num c))]),
           (''zones'', Arr (map (\<lambda>z. zone_document (mesh s z)) (zones s)))]"
    by (simp only: exportLayout_def Let_def fst_conv assms(1,2,3) JSON_roundtrip.simps
          JSON_properties.simps JSON_elements_map zdocs snd_conv fst_conv)
       simp
  have hf: "habitat_fields ?doc = Some (shape (controls s), r, h, c)"
    by (simp only: doc) (simp add: habitat_fields_def)
  have "those (map zone_fields (map (\<lambda>z. zone_document (mesh s z)) (zones s))) = Some ?fs"
    by (simp only: map_map o_def zone_fields_zone_document those_map_Some)
  then have zf: "zones_fields ?doc = Some ?fs"
    by (simp only: doc) (simp add: zones_fields_def del: toFixed.simps)
  let ?s0 = "(resetHabitat ?s2)\<lparr> controls := \<lparr> shape = shape (controls s), radius = Num r,
                                                    height = Num h, crew = Number (Num c) \<rparr> \<rparr>"
  let ?s1 = "foldl add_loaded ?s0 ?fs"
  have "loadLayout ?doc ?s2 = Inr (showFeedback ''Layout loaded!'' True ?s1)"
    by (rule loadLayout_fields[OF hf zf])
  then show ?thesis
    by (simp only: reimport_def import_onload_def option.case sum.case)
qed

lemma controls_reimport:
  assumes "radius (controls s) = Num r" and "height (controls s) = Num h"
    and "parseInt_val (crew (controls s)) = Num c"
    and "\<And>z. z \<in> set (zones s) \<Longrightarrow> userData_type (mesh s z) = Str (tname z)"
  shows "controls (reimport s)
     = \<lparr> shape = shape (controls s), radius = Num r, height = Num h, crew = Number (Num c) \<rparr>"
  by (simp only: reimport_fields[OF assms]) (simp add: showFeedback_def foldl_add_loaded)




end
